theory Spec2Isabelle
  imports Main "HOL-Library.Word"
begin

section \<open>The standard library's address types (package net/netip)\<close>

text \<open>
  The client stores addresses as \<^verbatim>\<open>netip.Addr\<close> and \<^verbatim>\<open>netip.Prefix\<close> values and
  converts them to and from text with \<^verbatim>\<open>String\<close>, \<^verbatim>\<open>ParseAddr\<close> and
  \<^verbatim>\<open>ParsePrefix\<close>. An address is the zero value (no address), an IPv4 address of four
  octets, or an IPv6 address of eight 16-bit groups with an optional zone.
\<close>

datatype Addr =
    AddrZero
  | Addr4 "8 word" "8 word" "8 word" "8 word"
  | Addr6 "16 word" "16 word" "16 word" "16 word" "16 word" "16 word" "16 word" "16 word" string

text \<open>A parse error carries its message.\<close>

type_synonym parse_error = string

fun Is4 :: "Addr \<Rightarrow> bool" where
  "Is4 (Addr4 a b c d) = True"
| "Is4 _ = False"

fun Is6 :: "Addr \<Rightarrow> bool" where
  "Is6 (Addr6 h0 h1 h2 h3 h4 h5 h6 h7 z) = True"
| "Is6 _ = False"

fun Addr_IsValid :: "Addr \<Rightarrow> bool" where
  "Addr_IsValid AddrZero = False"
| "Addr_IsValid _ = True"

fun Zone :: "Addr \<Rightarrow> string" where
  "Zone (Addr6 h0 h1 h2 h3 h4 h5 h6 h7 z) = z"
| "Zone _ = []"

fun WithZone :: "Addr \<Rightarrow> string \<Rightarrow> Addr" where
  "WithZone (Addr6 h0 h1 h2 h3 h4 h5 h6 h7 z) zone = Addr6 h0 h1 h2 h3 h4 h5 h6 h7 zone"
| "WithZone ip zone = ip"

fun BitLen :: "Addr \<Rightarrow> int" where
  "BitLen AddrZero = 0"
| "BitLen (Addr4 a b c d) = 32"
| "BitLen (Addr6 h0 h1 h2 h3 h4 h5 h6 h7 z) = 128"

fun Is4In6 :: "Addr \<Rightarrow> bool" where
  "Is4In6 (Addr6 h0 h1 h2 h3 h4 h5 h6 h7 z) =
     (h0 = 0 \<and> h1 = 0 \<and> h2 = 0 \<and> h3 = 0 \<and> h4 = 0 \<and> h5 = 0xffff)"
| "Is4In6 _ = False"

text \<open>The eight groups of an IPv6 address, and the address of eight groups.\<close>

fun v6u16s :: "Addr \<Rightarrow> 16 word list" where
  "v6u16s (Addr6 h0 h1 h2 h3 h4 h5 h6 h7 z) = [h0, h1, h2, h3, h4, h5, h6, h7]"
| "v6u16s _ = []"

fun AddrFrom16 :: "16 word list \<Rightarrow> Addr" where
  "AddrFrom16 [h0, h1, h2, h3, h4, h5, h6, h7] = Addr6 h0 h1 h2 h3 h4 h5 h6 h7 []"
| "AddrFrom16 _ = AddrZero"

fun AddrFrom4 :: "8 word list \<Rightarrow> Addr" where
  "AddrFrom4 [a, b, c, d] = Addr4 a b c d"
| "AddrFrom4 _ = AddrZero"

text \<open>\<^verbatim>\<open>Unmap\<close>: the IPv4 address inside an IPv4-mapped IPv6 address.\<close>

fun Unmap :: "Addr \<Rightarrow> Addr" where
  "Unmap (Addr6 h0 h1 h2 h3 h4 h5 h6 h7 z) =
     (if Is4In6 (Addr6 h0 h1 h2 h3 h4 h5 h6 h7 z)
      then Addr4 (ucast (drop_bit 8 h6)) (ucast h6) (ucast (drop_bit 8 h7)) (ucast h7)
      else Addr6 h0 h1 h2 h3 h4 h5 h6 h7 z)"
| "Unmap ip = ip"

subsection \<open>Printing\<close>

text \<open>The digit table the printing functions index.\<close>

definition digits :: string where
  "digits = ''0123456789abcdef''"

definition digit_char :: "nat \<Rightarrow> char" where
  "digit_char d = digits ! d"

text \<open>Decimal text of a number below 256, as \<^verbatim>\<open>appendDecimal\<close> writes an octet.\<close>

definition appendDecimal :: "nat \<Rightarrow> string" where
  "appendDecimal x =
     (if x \<ge> 100 then [digit_char (x div 100), digit_char (x div 10 mod 10), digit_char (x mod 10)]
      else if x \<ge> 10 then [digit_char (x div 10 mod 10), digit_char (x mod 10)]
      else [digit_char (x mod 10)])"

definition hex_char :: "nat \<Rightarrow> char" where
  "hex_char d = digits ! d"

text \<open>Lower-case hexadecimal text of a 16-bit group without leading zeros (\<^verbatim>\<open>appendHex\<close>).\<close>

definition appendHex :: "nat \<Rightarrow> string" where
  "appendHex x =
     (if x \<ge> 0x1000 then [hex_char (x div 0x1000), hex_char (x div 0x100 mod 16), hex_char (x div 0x10 mod 16), hex_char (x mod 16)]
      else if x \<ge> 0x100 then [hex_char (x div 0x100 mod 16), hex_char (x div 0x10 mod 16), hex_char (x mod 16)]
      else if x \<ge> 0x10 then [hex_char (x div 0x10 mod 16), hex_char (x mod 16)]
      else [hex_char (x mod 16)])"

definition string4 :: "8 word \<Rightarrow> 8 word \<Rightarrow> 8 word \<Rightarrow> 8 word \<Rightarrow> string" where
  "string4 a b c d =
     appendDecimal (unat a) @ ''.'' @ appendDecimal (unat b) @ ''.'' @
     appendDecimal (unat c) @ ''.'' @ appendDecimal (unat d)"

text \<open>
  The first loop of \<^verbatim>\<open>string6\<close> finds the leftmost longest run of at least two zero
  groups, as the pair (zeroStart, zeroEnd); both stay 255 when there is none.
\<close>

definition zero_run_at :: "16 word list \<Rightarrow> nat \<Rightarrow> nat" where
  "zero_run_at hs i = length (takeWhile (\<lambda>h. h = 0) (drop i hs))"

definition longest_zero_run :: "16 word list \<Rightarrow> nat \<times> nat" where
  "longest_zero_run hs =
     fold (\<lambda>i (zeroStart, zeroEnd).
            let l = zero_run_at hs i
            in if l \<ge> 2 \<and> l > zeroEnd - zeroStart then (i, i + l) else (zeroStart, zeroEnd))
          [0..<8] (255, 255)"

fun join_hex :: "16 word list \<Rightarrow> string" where
  "join_hex [] = []"
| "join_hex [h] = appendHex (unat h)"
| "join_hex (h # hs) = appendHex (unat h) @ '':'' @ join_hex hs"

text \<open>
  The second loop writes the groups before the run separated by colons, two colons for
  the run, and the groups after it; a zone follows a percent sign.
\<close>

definition string6 :: "16 word list \<Rightarrow> string \<Rightarrow> string" where
  "string6 hs zone =
     (case longest_zero_run hs of (zeroStart, zeroEnd) \<Rightarrow>
        (if zeroStart = 255 then join_hex hs
         else join_hex (take zeroStart hs) @ ''::'' @ join_hex (drop zeroEnd hs))
        @ (if zone = [] then [] else ''%'' @ zone))"

fun Addr_String :: "Addr \<Rightarrow> string" where
  "Addr_String AddrZero = ''invalid IP''"
| "Addr_String (Addr4 a b c d) = string4 a b c d"
| "Addr_String (Addr6 h0 h1 h2 h3 h4 h5 h6 h7 z) =
     (if Is4In6 (Addr6 h0 h1 h2 h3 h4 h5 h6 h7 z)
      then ''::ffff:'' @ string4 (ucast (drop_bit 8 h6)) (ucast h6) (ucast (drop_bit 8 h7)) (ucast h7)
           @ (if z = [] then [] else ''%'' @ z)
      else string6 [h0, h1, h2, h3, h4, h5, h6, h7] z)"

subsection \<open>Parsing\<close>

text \<open>A character as the byte Go compares.\<close>

definition byte :: "char \<Rightarrow> nat" where
  "byte c = of_char c"

definition is_digit :: "char \<Rightarrow> bool" where
  "is_digit c = (byte CHR ''0'' \<le> byte c \<and> byte c \<le> byte CHR ''9'')"

definition digit_val :: "char \<Rightarrow> nat" where
  "digit_val c = byte c - byte CHR ''0''"

text \<open>
  \<^verbatim>\<open>parseIPv4\<close>: one pass over the text with the value and digit count of the current
  octet and the octets read so far; \<open>prev\<close> is the character before the current one.
\<close>

fun parseIPv4_loop :: "string \<Rightarrow> char option \<Rightarrow> nat \<Rightarrow> nat \<Rightarrow> 8 word list \<Rightarrow> parse_error + Addr" where
  "parseIPv4_loop [] prev val digLen fields =
     (if length fields < 3 then Inl ''IPv4 address too short''
      else Inr (AddrFrom4 (fields @ [of_nat val])))"
| "parseIPv4_loop (c # cs) prev val digLen fields =
     (if is_digit c then
        (if digLen = 1 \<and> val = 0 then Inl ''IPv4 field has octet with leading zero''
         else if val * 10 + digit_val c > 255 then Inl ''IPv4 field has value >255''
         else parseIPv4_loop cs (Some c) (val * 10 + digit_val c) (Suc digLen) fields)
      else if c = CHR ''.'' then
        (if prev = None \<or> cs = [] \<or> prev = Some CHR ''.''
         then Inl ''IPv4 field must have at least one digit''
         else if length fields = 3 then Inl ''IPv4 address too long''
         else parseIPv4_loop cs (Some c) 0 0 (fields @ [of_nat val]))
      else Inl ''unexpected character'')"

definition parseIPv4 :: "string \<Rightarrow> parse_error + Addr" where
  "parseIPv4 s = parseIPv4_loop s None 0 0 []"

definition hex_val :: "char \<Rightarrow> nat option" where
  "hex_val c =
     (if byte CHR ''0'' \<le> byte c \<and> byte c \<le> byte CHR ''9'' then Some (byte c - byte CHR ''0'')
      else if byte CHR ''a'' \<le> byte c \<and> byte c \<le> byte CHR ''f'' then Some (byte c - byte CHR ''a'' + 10)
      else if byte CHR ''A'' \<le> byte c \<and> byte c \<le> byte CHR ''F'' then Some (byte c - byte CHR ''A'' + 10)
      else None)"

text \<open>
  The inner loop of \<^verbatim>\<open>parseIPv6\<close> reads one hexadecimal group: it returns the value,
  the number of digits and the text left.
\<close>

fun hex_group :: "string \<Rightarrow> nat \<Rightarrow> nat \<Rightarrow> parse_error + (nat \<times> nat \<times> string)" where
  "hex_group [] off acc = Inr (acc, off, [])"
| "hex_group (c # cs) off acc =
     (case hex_val c of
        None \<Rightarrow> Inr (acc, off, c # cs)
      | Some d \<Rightarrow>
          if off > 3 then Inl ''each group must have 4 or less digits''
          else if acc * 16 + d > 65535 then Inl ''IPv6 field has value >=2^16''
          else hex_group cs (Suc off) (acc * 16 + d))"

text \<open>The two groups an embedded IPv4 address fills.\<close>

fun v4_groups :: "Addr \<Rightarrow> 16 word list" where
  "v4_groups (Addr4 a b c d) = [word_cat a b, word_cat c d]"
| "v4_groups _ = []"

text \<open>
  The outer loop of \<^verbatim>\<open>parseIPv6\<close> runs while fewer than eight groups are filled; its
  first argument counts the rounds left. It returns the text left, the groups and the
  position of the ellipsis.
\<close>

fun parseIPv6_loop :: "nat \<Rightarrow> string \<Rightarrow> 16 word list \<Rightarrow> nat option \<Rightarrow>
    parse_error + (string \<times> 16 word list \<times> nat option)" where
  "parseIPv6_loop 0 s hs ellipsis = Inr (s, hs, ellipsis)"
| "parseIPv6_loop (Suc n) s hs ellipsis =
     (case hex_group s 0 0 of
        Inl e \<Rightarrow> Inl e
      | Inr (acc, off, rest) \<Rightarrow>
          if off = 0 then Inl ''each colon-separated field must have at least one digit''
          else if rest \<noteq> [] \<and> hd rest = CHR ''.'' then
            (if ellipsis = None \<and> length hs \<noteq> 6
             then Inl ''embedded IPv4 address must replace the final 2 fields of the address''
             else if length hs + 2 > 8
             then Inl ''too many hex fields to fit an embedded IPv4 at the end of the address''
             else case parseIPv4 s of
                    Inl e \<Rightarrow> Inl e
                  | Inr ip4 \<Rightarrow> Inr ([], hs @ v4_groups ip4, ellipsis))
          else if rest = [] then Inr ([], hs @ [of_nat acc], ellipsis)
          else if hd rest \<noteq> CHR '':'' then Inl ''unexpected character, want colon''
          else if length rest = 1 then Inl ''colon must be followed by more characters''
          else if hd (tl rest) = CHR '':'' then
            (if ellipsis \<noteq> None then Inl ''multiple :: in address''
             else if tl (tl rest) = [] then Inr ([], hs @ [of_nat acc], Some (Suc (length hs)))
             else parseIPv6_loop n (tl (tl rest)) (hs @ [of_nat acc]) (Some (Suc (length hs))))
          else parseIPv6_loop n (tl rest) (hs @ [of_nat acc]) ellipsis)"

definition parseIPv6 :: "string \<Rightarrow> parse_error + Addr" where
  "parseIPv6 inp =
     (let s = takeWhile (\<lambda>c. c \<noteq> CHR ''%'') inp;
          zone = drop (Suc (length s)) inp
      in if CHR ''%'' \<in> set inp \<and> zone = [] then Inl ''zone must be a non-empty string''
         else
           let lead = (length s \<ge> 2 \<and> s ! 0 = CHR '':'' \<and> s ! 1 = CHR '':'');
               s1 = (if lead then drop 2 s else s)
           in if lead \<and> s1 = [] then Inr (WithZone (AddrFrom16 (replicate 8 0)) zone)
              else
                case parseIPv6_loop 8 s1 [] (if lead then Some 0 else None) of
                  Inl e \<Rightarrow> Inl e
                | Inr (rest, hs, ellipsis) \<Rightarrow>
                    if rest \<noteq> [] then Inl ''trailing garbage after address''
                    else if length hs < 8 then
                      (case ellipsis of
                         None \<Rightarrow> Inl ''address string too short''
                       | Some e \<Rightarrow>
                           Inr (WithZone (AddrFrom16 (take e hs @ replicate (8 - length hs) 0 @ drop e hs)) zone))
                    else if ellipsis \<noteq> None
                    then Inl ''the :: must expand to at least one field of zero''
                    else Inr (WithZone (AddrFrom16 hs) zone))"

text \<open>\<^verbatim>\<open>ParseAddr\<close> looks for the first dot, colon or percent sign to choose the parser.\<close>

fun ParseAddr_scan :: "string \<Rightarrow> string \<Rightarrow> parse_error + Addr" where
  "ParseAddr_scan s [] = Inl ''unable to parse IP''"
| "ParseAddr_scan s (c # cs) =
     (if c = CHR ''.'' then parseIPv4 s
      else if c = CHR '':'' then parseIPv6 s
      else if c = CHR ''%'' then Inl ''missing IPv6 address''
      else ParseAddr_scan s cs)"

definition ParseAddr :: "string \<Rightarrow> parse_error + Addr" where
  "ParseAddr s = ParseAddr_scan s s"

subsection \<open>Prefixes\<close>

text \<open>
  A \<^verbatim>\<open>netip.Prefix\<close> is an address and a bit count; the bit count of an invalid prefix
  (the zero value among them) is -1. \<^verbatim>\<open>PrefixFrom\<close> drops the zone and does not mask the
  address.
\<close>

datatype Prefix = Prefix (Prefix_Addr: Addr) (Bits: int)

definition Prefix_zero :: Prefix where
  "Prefix_zero = Prefix AddrZero (-1)"

definition Prefix_IsValid :: "Prefix \<Rightarrow> bool" where
  "Prefix_IsValid p = (Addr_IsValid (Prefix_Addr p) \<and> 0 \<le> Bits p \<and> Bits p \<le> BitLen (Prefix_Addr p))"

definition PrefixFrom :: "Addr \<Rightarrow> int \<Rightarrow> Prefix" where
  "PrefixFrom ip bits =
     Prefix (WithZone ip []) (if Addr_IsValid ip \<and> 0 \<le> bits \<and> bits \<le> BitLen ip then bits else -1)"

text \<open>
  \<^verbatim>\<open>ParsePrefix\<close> splits at the last slash, parses the address, refuses a zone, and
  reads the bit count as plain decimal digits without sign or leading zero.
\<close>

fun decimal_val :: "string \<Rightarrow> nat \<Rightarrow> nat" where
  "decimal_val [] acc = acc"
| "decimal_val (c # cs) acc = decimal_val cs (acc * 10 + digit_val c)"

definition ParsePrefix :: "string \<Rightarrow> parse_error + Prefix" where
  "ParsePrefix s =
     (if CHR ''/'' \<notin> set s then Inl ''no slash''
      else
        let bitsStr = rev (takeWhile (\<lambda>c. c \<noteq> CHR ''/'') (rev s));
            addrStr = take (length s - length bitsStr - 1) s
        in case ParseAddr addrStr of
             Inl e \<Rightarrow> Inl e
           | Inr ip \<Rightarrow>
               if Is6 ip \<and> Zone ip \<noteq> [] then Inl ''IPv6 zones cannot be present in a prefix''
               else if length bitsStr > 1 \<and> (byte (hd bitsStr) < byte CHR ''1'' \<or> byte (hd bitsStr) > byte CHR ''9'')
               then Inl ''bad bits after slash''
               else if bitsStr = [] \<or> \<not> list_all is_digit bitsStr then Inl ''bad bits after slash''
               else if int (decimal_val bitsStr 0) > (if Is6 ip then 128 else 32)
               then Inl ''prefix length out of range''
               else Inr (PrefixFrom ip (int (decimal_val bitsStr 0))))"

text \<open>Decimal text of a bit count (0 to 128).\<close>

definition Itoa :: "nat \<Rightarrow> string" where
  "Itoa n = appendDecimal n"

definition Prefix_String :: "Prefix \<Rightarrow> string" where
  "Prefix_String p =
     (if \<not> Prefix_IsValid p then ''invalid Prefix''
      else Addr_String (Prefix_Addr p) @ ''/'' @ Itoa (nat (Bits p)))"

section \<open>Wire messages (package dpdkproto)\<close>

text \<open>
  The wire messages are declared by the protocol module, outside this repository. Each
  is modelled with the fields the client writes or reads. Byte strings and strings are
  both lists of characters. A message-valued field is a pointer: \<open>None\<close> is nil, and
  the generated getters answer nil with the zero value.
\<close>

datatype IPVersion = IPVersion_IPv4 | IPVersion_IPv6

record Status =
  Error :: "32 word"
  Message :: string

definition GetError :: "Status option \<Rightarrow> 32 word" where
  "GetError st = (case st of None \<Rightarrow> 0 | Some s \<Rightarrow> Error s)"

definition GetMessage :: "Status option \<Rightarrow> string" where
  "GetMessage st = (case st of None \<Rightarrow> [] | Some s \<Rightarrow> Message s)"

text \<open>
  A response with a status sub-structure; the responses below extend it by the fields
  the client reads. The spec gives every wire response a status sub-structure, so the
  responses of the list operations have one too; those operations never read it.
\<close>

record StatusReply =
  GetStatus :: "Status option"

record UnderlayReply = StatusReply +
  GetUnderlayRoute :: string

record 'ip TargetsReply = StatusReply +
  GetTargetIPs :: "'ip list"

record 'i InterfaceReply = StatusReply +
  GetInterface_field :: "'i"

record 'i InterfacesMsg = StatusReply +
  GetInterfaces :: "'i list"

record 'p PrefixesMsg = StatusReply +
  GetPrefixes :: "'p list"

record 'r RoutesMsg = StatusReply +
  GetRoutes :: "'r list"

record CreateInterfaceResponse =
  GetResponse :: "UnderlayReply option"

record ProtoPrefix =
  pfx_IpVersion :: IPVersion
  pfx_Address :: string
  pfx_PrefixLength :: "32 word"

record ProtoRoute =
  rt_IpVersion :: IPVersion
  rt_Weight :: "32 word"
  rt_Prefix :: ProtoPrefix
  rt_NexthopVNI :: "32 word"
  rt_NexthopAddress :: string

record VNIRouteMsg =
  vr_Vni :: "32 word"
  vr_Route :: ProtoRoute

record InterfacePrefixMsg =
  ipm_InterfaceID :: string
  ipm_Prefix :: ProtoPrefix

record InterfaceVIPIP =
  vipip_IpVersion :: IPVersion
  vipip_Address :: string

record InterfaceVIPMsg =
  ivm_InterfaceID :: string
  ivm_InterfaceVIPIP :: InterfaceVIPIP

record NATIP =
  natip_IpVersion :: IPVersion
  natip_Address :: string

record AddNATRequest =
  anr_InterfaceID :: string
  anr_NatVIPIP :: NATIP
  anr_MinPort :: "32 word"
  anr_MaxPort :: "32 word"

record ProtoLBPort =
  lbp_Port :: "32 word"
  lbp_Protocol :: "32 word"

record 'lbip CreateLoadBalancerRequest =
  clb_LoadBalancerID :: string
  clb_Vni :: "32 word"
  clb_LbVipIP :: "'lbip"
  clb_Lbports :: "ProtoLBPort list"

record 'lbip LoadBalancerTargetRequest =
  lbt_LoadBalancerID :: string
  lbt_TargetIP :: "'lbip"

datatype InterfaceType = InterfaceType_VirtualInterface

record 'cfg CreateInterfaceRequest =
  cir_InterfaceType :: InterfaceType
  cir_InterfaceID :: string
  cir_Vni :: "32 word"
  cir_Ipv4Config :: "'cfg"
  cir_Ipv6Config :: "'cfg"
  cir_DeviceName :: string

section \<open>Semantic structs (package api)\<close>

text \<open>
  The struct declarations of package api are not among the sources. The records below
  hold the fields that the client and the table renderer read and write: a field the
  code reaches as \<^verbatim>\<open>x.Spec.F\<close> is a field of the Spec struct, and a promoted field
  (\<^verbatim>\<open>prefix.InterfaceID\<close>, \<^verbatim>\<open>route.NextHop\<close>, \<^verbatim>\<open>virtualIP.IP\<close>) is a field of the
  embedded metadata struct. A Spec struct the client only copies is a type parameter.
\<close>

record TypeMeta =
  Kind :: string

definition LoadBalancerKind :: string where "LoadBalancerKind = ''LoadBalancer''"
definition LoadBalancerTargetKind :: string where "LoadBalancerTargetKind = ''LoadBalancerTarget''"
definition LoadBalancerTargetListKind :: string where "LoadBalancerTargetListKind = ''LoadBalancerTargetList''"
definition PrefixKind :: string where "PrefixKind = ''Prefix''"
definition PrefixListKind :: string where "PrefixListKind = ''PrefixList''"
definition InterfaceKind :: string where "InterfaceKind = ''Interface''"
definition InterfaceListKind :: string where "InterfaceListKind = ''InterfaceList''"
definition VirtualIPKind :: string where "VirtualIPKind = ''VirtualIP''"
definition RouteKind :: string where "RouteKind = ''Route''"
definition RouteListKind :: string where "RouteListKind = ''RouteList''"
definition NatKind :: string where "NatKind = ''Nat''"

record LoadBalancerMeta =
  lbm_ID :: string

record LBPort =
  lbport_Protocol :: "32 word"
  lbport_Port :: "32 word"

record LoadBalancerSpec =
  lbs_VNI :: "32 word"
  lbs_LbVipIP :: Addr
  lbs_Lbports :: "LBPort list"
  lbs_UnderlayRoute :: Addr

record LoadBalancerStatus =
  lbst_Error :: "32 word"
  lbst_Message :: string

record LoadBalancer =
  lb_TypeMeta :: TypeMeta
  lb_LoadBalancerMeta :: LoadBalancerMeta
  lb_Spec :: LoadBalancerSpec
  lb_Status :: LoadBalancerStatus

record PrefixMeta =
  pm_InterfaceID :: string
  pm_Prefix :: Prefix

record 's ApiPrefix =
  p_TypeMeta :: TypeMeta
  p_PrefixMeta :: PrefixMeta
  p_Spec :: "'s"

record TargetIP =
  tip_Address :: Addr

record LoadBalancerTargetMeta =
  ltm_ID :: string

record 't LoadBalancerTargetSpec =
  lts_TargetIP :: "'t"

record 't LoadBalancerTarget =
  lt_TypeMeta :: TypeMeta
  lt_LoadBalancerTargetMeta :: LoadBalancerTargetMeta
  lt_Spec :: "'t LoadBalancerTargetSpec"

record InterfaceMeta =
  im_ID :: string

record InterfaceSpec =
  is_VNI :: "32 word"
  is_Device :: string
  is_IPs :: "Addr list"

record InterfaceStatus =
  ist_UnderlayIP :: Addr

record Interface =
  i_TypeMeta :: TypeMeta
  i_InterfaceMeta :: InterfaceMeta
  i_Spec :: InterfaceSpec
  i_Status :: InterfaceStatus

record VirtualIPMeta =
  vm_InterfaceID :: string
  vm_IP :: Addr

record 's VirtualIP =
  v_TypeMeta :: TypeMeta
  v_VirtualIPMeta :: VirtualIPMeta
  v_Spec :: "'s"

record RouteNextHop =
  nh_VNI :: "32 word"
  nh_IP :: Addr

record RouteMeta =
  rm_VNI :: "32 word"
  rm_Prefix :: Prefix
  rm_NextHop :: RouteNextHop

record 's Route =
  r_TypeMeta :: TypeMeta
  r_RouteMeta :: RouteMeta
  r_Spec :: "'s"

record NatMeta =
  nm_InterfaceID :: string

record NatSpec =
  ns_NatVIPIP :: Addr
  ns_MinPort :: "32 word"
  ns_MaxPort :: "32 word"
  ns_UnderlayRoute :: Addr

record NatStatus =
  nst_Error :: "32 word"
  nst_Message :: string

record Nat =
  n_TypeMeta :: TypeMeta
  n_NatMeta :: NatMeta
  n_Spec :: NatSpec
  n_Status :: NatStatus

text \<open>The list structs (PrefixList, InterfaceList, RouteList, LoadBalancerTargetList).\<close>

record 'a ItemList =
  il_TypeMeta :: TypeMeta
  Items :: "'a list"

text \<open>The zero values of the metadata structs, which a struct literal leaves in place.\<close>

definition VirtualIPMeta_zero :: VirtualIPMeta where
  "VirtualIPMeta_zero = \<lparr>vm_InterfaceID = [], vm_IP = AddrZero\<rparr>"

definition RouteMeta_zero :: RouteMeta where
  "RouteMeta_zero = \<lparr>rm_VNI = 0, rm_Prefix = Prefix_zero, rm_NextHop = \<lparr>nh_VNI = 0, nh_IP = AddrZero\<rparr>\<rparr>"

text \<open>
  Modelled from the spec: \<^verbatim>\<open>api.NetIPAddrToProtoIPVersion\<close> is not among the sources.
  The spec: the family tag is computed from the address's family, IPv4 to tag IPv4 and
  IPv6 to tag IPv6. For the zero address, of neither family, the tag is the
  enumeration's zero value.
\<close>

definition NetIPAddrToProtoIPVersion :: "Addr \<Rightarrow> IPVersion" where
  "NetIPAddrToProtoIPVersion addr =
     (if Is4 addr then IPVersion_IPv4 else if Is6 addr then IPVersion_IPv6 else IPVersion_IPv4)"

section \<open>Errors\<close>

text \<open>
  What an operation returns in place of a result: the error of the remote call,
  returned unchanged; the status error built by \<^verbatim>\<open>apierrors.NewStatusError\<close> from a
  code and a message; the error that wraps a failed parse of the underlay route; the
  error of a decoding function of package api, returned unchanged; and the run-time
  panic of reading a field through a nil pointer.
\<close>

datatype ('t, 'd) client_error =
    TransportError 't
  | StatusError "32 word" string
  | UnderlayRouteError parse_error
  | DecodeError 'd
  | NilPointerDereference

section \<open>The wire client (package client)\<close>

text \<open>
  Every method of \<^verbatim>\<open>client\<close> calls one method of the embedded protocol client. That
  method is the first argument \<open>rpc\<close> of the operation: a function from the request
  to the error of the call or the response. A request message of one field is that
  field. Functions of packages api and netiputil that are not among the sources are
  further arguments, named as in the code. The call context is passed through and has
  no part in the result.
\<close>

definition status_error :: "Status option \<Rightarrow> ('t, 'd) client_error" where
  "status_error st = StatusError (GetError st) (GetMessage st)"

definition GetLoadBalancer ::
  "(string \<Rightarrow> 't + 'z StatusReply_scheme) \<Rightarrow> ('z StatusReply_scheme \<Rightarrow> string \<Rightarrow> 'd + 'lb) \<Rightarrow>
   string \<Rightarrow> ('t, 'd) client_error + 'lb" where
  "GetLoadBalancer rpc ProtoLoadBalancerToLoadBalancer ident =
     (case rpc ident of
        Inl err \<Rightarrow> Inl (TransportError err)
      | Inr res \<Rightarrow>
          if GetError (GetStatus res) \<noteq> 0 then Inl (status_error (GetStatus res))
          else case ProtoLoadBalancerToLoadBalancer res ident of
                 Inl err \<Rightarrow> Inl (DecodeError err)
               | Inr lb \<Rightarrow> Inr lb)"

definition CreateLoadBalancer_request :: "(Addr \<Rightarrow> 'lbip) \<Rightarrow> LoadBalancer \<Rightarrow> 'lbip CreateLoadBalancerRequest" where
  "CreateLoadBalancer_request LbipToProtoLbip lb =
     \<lparr>clb_LoadBalancerID = lbm_ID (lb_LoadBalancerMeta lb),
      clb_Vni = lbs_VNI (lb_Spec lb),
      clb_LbVipIP = LbipToProtoLbip (lbs_LbVipIP (lb_Spec lb)),
      clb_Lbports = map (\<lambda>p. \<lparr>lbp_Port = lbport_Port p, lbp_Protocol = lbport_Protocol p\<rparr>)
                        (lbs_Lbports (lb_Spec lb))\<rparr>"

text \<open>
  \<^verbatim>\<open>CreateLoadBalancer\<close> and \<^verbatim>\<open>CreateNat\<close> assign to a field of the struct their argument
  points to. They return the result together with that struct as it is after the call.
\<close>

definition CreateLoadBalancer ::
  "('lbip CreateLoadBalancerRequest \<Rightarrow> 't + 'z UnderlayReply_scheme) \<Rightarrow> (Addr \<Rightarrow> 'lbip) \<Rightarrow>
   LoadBalancer \<Rightarrow> (('t, 'd) client_error + LoadBalancer) \<times> LoadBalancer" where
  "CreateLoadBalancer rpc LbipToProtoLbip lb =
     (case rpc (CreateLoadBalancer_request LbipToProtoLbip lb) of
        Inl err \<Rightarrow> (Inl (TransportError err), lb)
      | Inr res \<Rightarrow>
          if GetError (GetStatus res) \<noteq> 0 then (Inl (status_error (GetStatus res)), lb)
          else case ParseAddr (GetUnderlayRoute res) of
                 Inl err \<Rightarrow> (Inl (UnderlayRouteError err), lb)
               | Inr underlayRoute \<Rightarrow>
                   let lb' = lb\<lparr>lb_Spec := (lb_Spec lb)\<lparr>lbs_UnderlayRoute := underlayRoute\<rparr>\<rparr>
                   in (case GetStatus res of
                        None \<Rightarrow> (Inl NilPointerDereference, lb')
                      | Some st \<Rightarrow>
                          (Inr \<lparr>lb_TypeMeta = \<lparr>Kind = LoadBalancerKind\<rparr>,
                                lb_LoadBalancerMeta = lb_LoadBalancerMeta lb',
                                lb_Spec = lb_Spec lb',
                                lb_Status = \<lparr>lbst_Error = Error st, lbst_Message = Message st\<rparr>\<rparr>, lb')))"

text \<open>The shape of every delete operation: the response is a status message itself.\<close>

definition delete_result :: "'t + Status \<Rightarrow> ('t, 'd) client_error + unit" where
  "delete_result r =
     (case r of
        Inl err \<Rightarrow> Inl (TransportError err)
      | Inr res \<Rightarrow> if Error res \<noteq> 0 then Inl (StatusError (Error res) (Message res)) else Inr ())"

definition DeleteLoadBalancer :: "(string \<Rightarrow> 't + Status) \<Rightarrow> string \<Rightarrow> ('t, 'd) client_error + unit" where
  "DeleteLoadBalancer rpc ident = delete_result (rpc ident)"

text \<open>
  The loop of every list operation: a slice of the response's length, each element
  translated and stored at its index, the first error returned at once.
\<close>

fun range_loop :: "('a \<Rightarrow> 'e + 'b) \<Rightarrow> 'a list \<Rightarrow> nat \<Rightarrow> 'b list \<Rightarrow> 'e + 'b list" where
  "range_loop f [] i items = Inr items"
| "range_loop f (x # xs) i items =
     (case f x of
        Inl err \<Rightarrow> Inl err
      | Inr y \<Rightarrow> range_loop f xs (Suc i) (items[i := y]))"

definition translate_items :: "('a \<Rightarrow> 'e + 'b) \<Rightarrow> 'b \<Rightarrow> 'a list \<Rightarrow> 'e + 'b list" where
  "translate_items f zero xs = range_loop f xs 0 (replicate (length xs) zero)"

definition decode_with :: "('a \<Rightarrow> 'd + 'b) \<Rightarrow> 'a \<Rightarrow> ('t, 'd) client_error + 'b" where
  "decode_with f x = (case f x of Inl err \<Rightarrow> Inl (DecodeError err) | Inr y \<Rightarrow> Inr y)"

definition ListLoadBalancerPrefixes ::
  "(string \<Rightarrow> 't + ('lp, 'z) PrefixesMsg_scheme) \<Rightarrow> (string \<Rightarrow> 'p \<Rightarrow> 'd + 's ApiPrefix) \<Rightarrow>
   ('lp \<Rightarrow> 'p) \<Rightarrow> 's ApiPrefix \<Rightarrow> string \<Rightarrow> ('t, 'd) client_error + 's ApiPrefix ItemList" where
  "ListLoadBalancerPrefixes rpc ProtoPrefixToPrefix ProtoLBPrefixToProtoPrefix zero interfaceID =
     (case rpc interfaceID of
        Inl err \<Rightarrow> Inl (TransportError err)
      | Inr res \<Rightarrow>
          case translate_items
                 (decode_with (\<lambda>dpdkPrefix. ProtoPrefixToPrefix interfaceID (ProtoLBPrefixToProtoPrefix dpdkPrefix)))
                 zero (GetPrefixes res) of
            Inl err \<Rightarrow> Inl err
          | Inr prefixes \<Rightarrow> Inr \<lparr>il_TypeMeta = \<lparr>Kind = PrefixListKind\<rparr>, Items = prefixes\<rparr>)"

definition prefix_to_proto :: "Prefix \<Rightarrow> ProtoPrefix" where
  "prefix_to_proto prefix =
     \<lparr>pfx_IpVersion = NetIPAddrToProtoIPVersion (Prefix_Addr prefix),
      pfx_Address = Addr_String (Prefix_Addr prefix),
      pfx_PrefixLength = word_of_int (Bits prefix)\<rparr>"

text \<open>The request of the four operations that add or delete a prefix of an interface.\<close>

definition interface_prefix_msg :: "string \<Rightarrow> Prefix \<Rightarrow> InterfacePrefixMsg" where
  "interface_prefix_msg interfaceID prefix =
     \<lparr>ipm_InterfaceID = interfaceID, ipm_Prefix = prefix_to_proto prefix\<rparr>"

definition CreatePrefix_request :: "'s ApiPrefix \<Rightarrow> InterfacePrefixMsg" where
  "CreatePrefix_request prefix =
     interface_prefix_msg (pm_InterfaceID (p_PrefixMeta prefix)) (pm_Prefix (p_PrefixMeta prefix))"

definition CreateLoadBalancerPrefix ::
  "(InterfacePrefixMsg \<Rightarrow> 't + 'z StatusReply_scheme) \<Rightarrow> 's ApiPrefix \<Rightarrow> ('t, 'd) client_error + 's ApiPrefix" where
  "CreateLoadBalancerPrefix rpc prefix =
     (case rpc (CreatePrefix_request prefix) of
        Inl err \<Rightarrow> Inl (TransportError err)
      | Inr res \<Rightarrow>
          if GetError (GetStatus res) \<noteq> 0 then Inl (status_error (GetStatus res))
          else Inr \<lparr>p_TypeMeta = \<lparr>Kind = PrefixKind\<rparr>, p_PrefixMeta = p_PrefixMeta prefix, p_Spec = p_Spec prefix\<rparr>)"

definition DeleteLoadBalancerPrefix ::
  "(InterfacePrefixMsg \<Rightarrow> 't + Status) \<Rightarrow> string \<Rightarrow> Prefix \<Rightarrow> ('t, 'd) client_error + unit" where
  "DeleteLoadBalancerPrefix rpc interfaceID prefix =
     delete_result (rpc (interface_prefix_msg interfaceID prefix))"

definition lbtarget_of :: "('lbip \<Rightarrow> 'tip option) \<Rightarrow> string \<Rightarrow> 'lbip \<Rightarrow> ('t, 'd) client_error + 'tip LoadBalancerTarget" where
  "lbtarget_of ProtoLbipToLbip loadBalancerID dpdkLBtarget =
     (case ProtoLbipToLbip dpdkLBtarget of
        None \<Rightarrow> Inl NilPointerDereference
      | Some targetIP \<Rightarrow>
          Inr \<lparr>lt_TypeMeta = \<lparr>Kind = LoadBalancerTargetKind\<rparr>,
               lt_LoadBalancerTargetMeta = \<lparr>ltm_ID = loadBalancerID\<rparr>,
               lt_Spec = \<lparr>lts_TargetIP = targetIP\<rparr>\<rparr>)"

definition GetLoadBalancerTargets ::
  "(string \<Rightarrow> 't + ('lbip, 'z) TargetsReply_scheme) \<Rightarrow> ('lbip \<Rightarrow> 'tip option) \<Rightarrow> 'tip LoadBalancerTarget \<Rightarrow>
   string \<Rightarrow> ('t, 'd) client_error + 'tip LoadBalancerTarget ItemList" where
  "GetLoadBalancerTargets rpc ProtoLbipToLbip zero loadBalancerID =
     (case rpc loadBalancerID of
        Inl err \<Rightarrow> Inl (TransportError err)
      | Inr res \<Rightarrow>
          if GetError (GetStatus res) \<noteq> 0 then Inl (status_error (GetStatus res))
          else case translate_items (lbtarget_of ProtoLbipToLbip loadBalancerID) zero (GetTargetIPs res) of
                 Inl err \<Rightarrow> Inl err
               | Inr lbtargets \<Rightarrow> Inr \<lparr>il_TypeMeta = \<lparr>Kind = LoadBalancerTargetListKind\<rparr>, Items = lbtargets\<rparr>)"

definition lbtarget_msg :: "(Addr \<Rightarrow> 'lbip) \<Rightarrow> string \<Rightarrow> Addr \<Rightarrow> 'lbip LoadBalancerTargetRequest" where
  "lbtarget_msg LbipToProtoLbip ident targetIP =
     \<lparr>lbt_LoadBalancerID = ident, lbt_TargetIP = LbipToProtoLbip targetIP\<rparr>"

definition CreateLoadBalancerTarget ::
  "('lbip LoadBalancerTargetRequest \<Rightarrow> 't + Status) \<Rightarrow> (Addr \<Rightarrow> 'lbip) \<Rightarrow>
   'y TargetIP_scheme LoadBalancerTarget \<Rightarrow> ('t, 'd) client_error + 'y TargetIP_scheme LoadBalancerTarget" where
  "CreateLoadBalancerTarget rpc LbipToProtoLbip lbtarget =
     (case rpc (lbtarget_msg LbipToProtoLbip (ltm_ID (lt_LoadBalancerTargetMeta lbtarget))
                  (tip_Address (lts_TargetIP (lt_Spec lbtarget)))) of
        Inl err \<Rightarrow> Inl (TransportError err)
      | Inr res \<Rightarrow>
          if Error res \<noteq> 0 then Inl (StatusError (Error res) (Message res))
          else Inr \<lparr>lt_TypeMeta = \<lparr>Kind = LoadBalancerTargetKind\<rparr>,
                    lt_LoadBalancerTargetMeta = lt_LoadBalancerTargetMeta lbtarget,
                    lt_Spec = lt_Spec lbtarget\<rparr>)"

definition DeleteLoadBalancerTarget ::
  "('lbip LoadBalancerTargetRequest \<Rightarrow> 't + Status) \<Rightarrow> (Addr \<Rightarrow> 'lbip) \<Rightarrow> string \<Rightarrow> Addr \<Rightarrow>
   ('t, 'd) client_error + unit" where
  "DeleteLoadBalancerTarget rpc LbipToProtoLbip ident targetIP =
     delete_result (rpc (lbtarget_msg LbipToProtoLbip ident targetIP))"

definition GetInterface ::
  "(string \<Rightarrow> 't + ('i, 'z) InterfaceReply_scheme) \<Rightarrow> ('i \<Rightarrow> 'd + Interface) \<Rightarrow> string \<Rightarrow>
   ('t, 'd) client_error + Interface" where
  "GetInterface rpc ProtoInterfaceToInterface name =
     (case rpc name of
        Inl err \<Rightarrow> Inl (TransportError err)
      | Inr res \<Rightarrow>
          if GetError (GetStatus res) \<noteq> 0 then Inl (status_error (GetStatus res))
          else decode_with ProtoInterfaceToInterface (GetInterface_field res))"

definition ListInterfaces ::
  "(unit \<Rightarrow> 't + ('i, 'z) InterfacesMsg_scheme) \<Rightarrow> ('i \<Rightarrow> 'd + Interface) \<Rightarrow> Interface \<Rightarrow>
   ('t, 'd) client_error + Interface ItemList" where
  "ListInterfaces rpc ProtoInterfaceToInterface zero =
     (case rpc () of
        Inl err \<Rightarrow> Inl (TransportError err)
      | Inr res \<Rightarrow>
          case translate_items (decode_with ProtoInterfaceToInterface) zero (GetInterfaces res) of
            Inl err \<Rightarrow> Inl err
          | Inr ifaces \<Rightarrow> Inr \<lparr>il_TypeMeta = \<lparr>Kind = InterfaceListKind\<rparr>, Items = ifaces\<rparr>)"

definition CreateInterface_request ::
  "('a \<Rightarrow> 'cfg) \<Rightarrow> (Addr list \<Rightarrow> 'a) \<Rightarrow> (Addr list \<Rightarrow> 'a) \<Rightarrow> Interface \<Rightarrow> 'cfg CreateInterfaceRequest" where
  "CreateInterface_request NetIPAddrToProtoIPConfig FindIPv4 FindIPv6 iface =
     \<lparr>cir_InterfaceType = InterfaceType_VirtualInterface,
      cir_InterfaceID = im_ID (i_InterfaceMeta iface),
      cir_Vni = is_VNI (i_Spec iface),
      cir_Ipv4Config = NetIPAddrToProtoIPConfig (FindIPv4 (is_IPs (i_Spec iface))),
      cir_Ipv6Config = NetIPAddrToProtoIPConfig (FindIPv6 (is_IPs (i_Spec iface))),
      cir_DeviceName = is_Device (i_Spec iface)\<rparr>"

text \<open>The getters of the nested response of \<^verbatim>\<open>CreateInterface\<close> answer nil with zero values.\<close>

definition Response_GetStatus :: "UnderlayReply option \<Rightarrow> Status option" where
  "Response_GetStatus r = (case r of None \<Rightarrow> None | Some x \<Rightarrow> GetStatus x)"

definition Response_GetUnderlayRoute :: "UnderlayReply option \<Rightarrow> string" where
  "Response_GetUnderlayRoute r = (case r of None \<Rightarrow> [] | Some x \<Rightarrow> GetUnderlayRoute x)"

definition CreateInterface ::
  "('cfg CreateInterfaceRequest \<Rightarrow> 't + CreateInterfaceResponse) \<Rightarrow> ('a \<Rightarrow> 'cfg) \<Rightarrow> (Addr list \<Rightarrow> 'a) \<Rightarrow>
   (Addr list \<Rightarrow> 'a) \<Rightarrow> Interface \<Rightarrow> ('t, 'd) client_error + Interface" where
  "CreateInterface rpc NetIPAddrToProtoIPConfig FindIPv4 FindIPv6 iface =
     (case rpc (CreateInterface_request NetIPAddrToProtoIPConfig FindIPv4 FindIPv6 iface) of
        Inl err \<Rightarrow> Inl (TransportError err)
      | Inr res \<Rightarrow>
          if GetError (Response_GetStatus (GetResponse res)) \<noteq> 0
          then Inl (status_error (Response_GetStatus (GetResponse res)))
          else case ParseAddr (Response_GetUnderlayRoute (GetResponse res)) of
                 Inl err \<Rightarrow> Inl (UnderlayRouteError err)
               | Inr underlayIP \<Rightarrow>
                   Inr \<lparr>i_TypeMeta = \<lparr>Kind = InterfaceKind\<rparr>,
                        i_InterfaceMeta = i_InterfaceMeta iface,
                        i_Spec = i_Spec iface,
                        i_Status = \<lparr>ist_UnderlayIP = underlayIP\<rparr>\<rparr>)"

definition DeleteInterface :: "(string \<Rightarrow> 't + Status) \<Rightarrow> string \<Rightarrow> ('t, 'd) client_error + unit" where
  "DeleteInterface rpc name = delete_result (rpc name)"

definition GetVirtualIP ::
  "(string \<Rightarrow> 't + 'z StatusReply_scheme) \<Rightarrow> (string \<Rightarrow> 'z StatusReply_scheme \<Rightarrow> 'd + 'v) \<Rightarrow> string \<Rightarrow>
   ('t, 'd) client_error + 'v" where
  "GetVirtualIP rpc ProtoVirtualIPToVirtualIP interfaceName =
     (case rpc interfaceName of
        Inl err \<Rightarrow> Inl (TransportError err)
      | Inr res \<Rightarrow>
          if GetError (GetStatus res) \<noteq> 0 then Inl (status_error (GetStatus res))
          else decode_with (ProtoVirtualIPToVirtualIP interfaceName) res)"

definition CreateVirtualIP_request :: "'s VirtualIP \<Rightarrow> InterfaceVIPMsg" where
  "CreateVirtualIP_request virtualIP =
     \<lparr>ivm_InterfaceID = vm_InterfaceID (v_VirtualIPMeta virtualIP),
      ivm_InterfaceVIPIP =
        \<lparr>vipip_IpVersion = NetIPAddrToProtoIPVersion (vm_IP (v_VirtualIPMeta virtualIP)),
         vipip_Address = Addr_String (vm_IP (v_VirtualIPMeta virtualIP))\<rparr>\<rparr>"

definition CreateVirtualIP ::
  "(InterfaceVIPMsg \<Rightarrow> 't + 'z StatusReply_scheme) \<Rightarrow> 's VirtualIP \<Rightarrow> ('t, 'd) client_error + 's VirtualIP" where
  "CreateVirtualIP rpc virtualIP =
     (case rpc (CreateVirtualIP_request virtualIP) of
        Inl err \<Rightarrow> Inl (TransportError err)
      | Inr res \<Rightarrow>
          if GetError (GetStatus res) \<noteq> 0 then Inl (status_error (GetStatus res))
          else Inr \<lparr>v_TypeMeta = \<lparr>Kind = VirtualIPKind\<rparr>,
                    v_VirtualIPMeta = VirtualIPMeta_zero,
                    v_Spec = v_Spec virtualIP\<rparr>)"

definition DeleteVirtualIP :: "(string \<Rightarrow> 't + Status) \<Rightarrow> string \<Rightarrow> ('t, 'd) client_error + unit" where
  "DeleteVirtualIP rpc interfaceID = delete_result (rpc interfaceID)"

definition ListPrefixes ::
  "(string \<Rightarrow> 't + ('p, 'z) PrefixesMsg_scheme) \<Rightarrow> (string \<Rightarrow> 'p \<Rightarrow> 'd + 's ApiPrefix) \<Rightarrow>
   's ApiPrefix \<Rightarrow> string \<Rightarrow> ('t, 'd) client_error + 's ApiPrefix ItemList" where
  "ListPrefixes rpc ProtoPrefixToPrefix zero interfaceID =
     (case rpc interfaceID of
        Inl err \<Rightarrow> Inl (TransportError err)
      | Inr res \<Rightarrow>
          case translate_items (decode_with (ProtoPrefixToPrefix interfaceID)) zero (GetPrefixes res) of
            Inl err \<Rightarrow> Inl err
          | Inr prefixes \<Rightarrow> Inr \<lparr>il_TypeMeta = \<lparr>Kind = PrefixListKind\<rparr>, Items = prefixes\<rparr>)"

definition CreatePrefix ::
  "(InterfacePrefixMsg \<Rightarrow> 't + 'z StatusReply_scheme) \<Rightarrow> 's ApiPrefix \<Rightarrow> ('t, 'd) client_error + 's ApiPrefix" where
  "CreatePrefix rpc prefix =
     (case rpc (CreatePrefix_request prefix) of
        Inl err \<Rightarrow> Inl (TransportError err)
      | Inr res \<Rightarrow>
          if GetError (GetStatus res) \<noteq> 0 then Inl (status_error (GetStatus res))
          else Inr \<lparr>p_TypeMeta = \<lparr>Kind = PrefixKind\<rparr>, p_PrefixMeta = p_PrefixMeta prefix, p_Spec = p_Spec prefix\<rparr>)"

definition DeletePrefix ::
  "(InterfacePrefixMsg \<Rightarrow> 't + Status) \<Rightarrow> string \<Rightarrow> Prefix \<Rightarrow> ('t, 'd) client_error + unit" where
  "DeletePrefix rpc interfaceID prefix =
     delete_result (rpc (interface_prefix_msg interfaceID prefix))"

text \<open>
  The route message of \<^verbatim>\<open>CreateRoute\<close> and \<^verbatim>\<open>DeleteRoute\<close>. The address field of its
  prefix holds the text of the whole prefix (\<^verbatim>\<open>prefix.String()\<close>), not of its address.
\<close>

definition route_msg :: "32 word \<Rightarrow> Prefix \<Rightarrow> 32 word \<Rightarrow> Addr \<Rightarrow> VNIRouteMsg" where
  "route_msg vni prefix nextHopVNI nextHopIP =
     \<lparr>vr_Vni = vni,
      vr_Route =
        \<lparr>rt_IpVersion = NetIPAddrToProtoIPVersion nextHopIP,
         rt_Weight = 100,
         rt_Prefix =
           \<lparr>pfx_IpVersion = NetIPAddrToProtoIPVersion (Prefix_Addr prefix),
            pfx_Address = Prefix_String prefix,
            pfx_PrefixLength = word_of_int (Bits prefix)\<rparr>,
         rt_NexthopVNI = nextHopVNI,
         rt_NexthopAddress = Addr_String nextHopIP\<rparr>\<rparr>"

definition CreateRoute_request :: "'s Route \<Rightarrow> VNIRouteMsg" where
  "CreateRoute_request route =
     route_msg (rm_VNI (r_RouteMeta route)) (rm_Prefix (r_RouteMeta route))
       (nh_VNI (rm_NextHop (r_RouteMeta route))) (nh_IP (rm_NextHop (r_RouteMeta route)))"

definition CreateRoute ::
  "(VNIRouteMsg \<Rightarrow> 't + Status) \<Rightarrow> 's Route \<Rightarrow> ('t, 'd) client_error + 's Route" where
  "CreateRoute rpc route =
     (case rpc (CreateRoute_request route) of
        Inl err \<Rightarrow> Inl (TransportError err)
      | Inr res \<Rightarrow>
          if Error res \<noteq> 0 then Inl (StatusError (Error res) (Message res))
          else Inr \<lparr>r_TypeMeta = \<lparr>Kind = RouteKind\<rparr>, r_RouteMeta = RouteMeta_zero, r_Spec = r_Spec route\<rparr>)"

definition DeleteRoute_request :: "32 word \<Rightarrow> Prefix \<Rightarrow> 32 word \<Rightarrow> Addr \<Rightarrow> VNIRouteMsg" where
  "DeleteRoute_request vni prefix nextHopVNI nextHopIP = route_msg vni prefix nextHopVNI nextHopIP"

definition DeleteRoute ::
  "(VNIRouteMsg \<Rightarrow> 't + Status) \<Rightarrow> 32 word \<Rightarrow> Prefix \<Rightarrow> 32 word \<Rightarrow> Addr \<Rightarrow> ('t, 'd) client_error + unit" where
  "DeleteRoute rpc vni prefix nextHopVNI nextHopIP =
     delete_result (rpc (DeleteRoute_request vni prefix nextHopVNI nextHopIP))"

definition ListRoutes ::
  "(32 word \<Rightarrow> 't + ('r, 'z) RoutesMsg_scheme) \<Rightarrow> (32 word \<Rightarrow> 'r \<Rightarrow> 'd + 's Route) \<Rightarrow> 's Route \<Rightarrow>
   32 word \<Rightarrow> ('t, 'd) client_error + 's Route ItemList" where
  "ListRoutes rpc ProtoRouteToRoute zero vni =
     (case rpc vni of
        Inl err \<Rightarrow> Inl (TransportError err)
      | Inr res \<Rightarrow>
          case translate_items (decode_with (ProtoRouteToRoute vni)) zero (GetRoutes res) of
            Inl err \<Rightarrow> Inl err
          | Inr routes \<Rightarrow> Inr \<lparr>il_TypeMeta = \<lparr>Kind = RouteListKind\<rparr>, Items = routes\<rparr>)"

definition GetNat ::
  "(string \<Rightarrow> 't + 'z StatusReply_scheme) \<Rightarrow> ('z StatusReply_scheme \<Rightarrow> string \<Rightarrow> 'd + 'n) \<Rightarrow> string \<Rightarrow>
   ('t, 'd) client_error + 'n" where
  "GetNat rpc ProtoNatToNat interfaceID =
     (case rpc interfaceID of
        Inl err \<Rightarrow> Inl (TransportError err)
      | Inr res \<Rightarrow>
          if GetError (GetStatus res) \<noteq> 0 then Inl (status_error (GetStatus res))
          else case ProtoNatToNat res interfaceID of
                 Inl err \<Rightarrow> Inl (DecodeError err)
               | Inr n \<Rightarrow> Inr n)"

definition CreateNat_request :: "Nat \<Rightarrow> AddNATRequest" where
  "CreateNat_request natx =
     \<lparr>anr_InterfaceID = nm_InterfaceID (n_NatMeta natx),
      anr_NatVIPIP =
        \<lparr>natip_IpVersion = NetIPAddrToProtoIPVersion (ns_NatVIPIP (n_Spec natx)),
         natip_Address = Addr_String (ns_NatVIPIP (n_Spec natx))\<rparr>,
      anr_MinPort = ns_MinPort (n_Spec natx),
      anr_MaxPort = ns_MaxPort (n_Spec natx)\<rparr>"

definition CreateNat ::
  "(AddNATRequest \<Rightarrow> 't + 'z UnderlayReply_scheme) \<Rightarrow> Nat \<Rightarrow> (('t, 'd) client_error + Nat) \<times> Nat" where
  "CreateNat rpc natx =
     (case rpc (CreateNat_request natx) of
        Inl err \<Rightarrow> (Inl (TransportError err), natx)
      | Inr res \<Rightarrow>
          if GetError (GetStatus res) \<noteq> 0 then (Inl (status_error (GetStatus res)), natx)
          else case ParseAddr (GetUnderlayRoute res) of
                 Inl err \<Rightarrow> (Inl (UnderlayRouteError err), natx)
               | Inr underlayRoute \<Rightarrow>
                   let natx' = natx\<lparr>n_Spec := (n_Spec natx)\<lparr>ns_UnderlayRoute := underlayRoute\<rparr>\<rparr>
                   in (case GetStatus res of
                        None \<Rightarrow> (Inl NilPointerDereference, natx')
                      | Some st \<Rightarrow>
                          (Inr \<lparr>n_TypeMeta = \<lparr>Kind = NatKind\<rparr>,
                                n_NatMeta = n_NatMeta natx',
                                n_Spec = n_Spec natx',
                                n_Status = \<lparr>nst_Error = Error st, nst_Message = Message st\<rparr>\<rparr>, natx')))"

text \<open>
  A status reports the code \<open>c\<close> and the message \<open>m\<close> when its code is not zero, is
  \<open>c\<close>, and its message is \<open>m\<close>.
\<close>

definition reports :: "Status option \<Rightarrow> 32 word \<Rightarrow> string \<Rightarrow> bool" where
  "reports st c m = (GetError st \<noteq> 0 \<and> c = GetError st \<and> m = GetMessage st)"

section \<open>Decoding a wire prefix (package api)\<close>

text \<open>
  Modelled from the spec: \<^verbatim>\<open>api.ProtoPrefixToPrefix\<close>, which the list operations call on
  every wire prefix, is not among the sources. The spec: a wire prefix is decoded back
  into a semantic prefix, its textual address parsed into a structured address and
  joined with the bit length; a field that should be a valid address or prefix and
  fails to parse is a decode error. The result belongs to the interface whose ID the
  caller passes. The Spec struct, whose fields no source names, is the unit value.
\<close>

definition ProtoPrefixToPrefix :: "string \<Rightarrow> ProtoPrefix \<Rightarrow> string + unit ApiPrefix" where
  "ProtoPrefixToPrefix interfaceID dpdkPrefix =
     (case ParseAddr (pfx_Address dpdkPrefix) of
        Inl err \<Rightarrow> Inl err
      | Inr addr \<Rightarrow>
          if \<not> Prefix_IsValid (PrefixFrom addr (uint (pfx_PrefixLength dpdkPrefix)))
          then Inl ''invalid prefix length''
          else Inr \<lparr>p_TypeMeta = \<lparr>Kind = PrefixKind\<rparr>,
                    p_PrefixMeta = \<lparr>pm_InterfaceID = interfaceID,
                                    pm_Prefix = PrefixFrom addr (uint (pfx_PrefixLength dpdkPrefix))\<rparr>,
                    p_Spec = ()\<rparr>)"

section \<open>The command \<^verbatim>\<open>prefix add\<close> (package cmd)\<close>

text \<open>
  \<^verbatim>\<open>addPrefixCmd\<close> reads the flags \<^verbatim>\<open>interface_id\<close>, \<^verbatim>\<open>ipv4\<close> and \<^verbatim>\<open>ipv6\<close>, builds the
  wire prefix itself and calls the protocol client's \<^verbatim>\<open>AddInterfacePrefix\<close>, the first
  argument here. It parses the text of the \<^verbatim>\<open>ipv4\<close> flag when that is not empty and
  the text of the \<^verbatim>\<open>ipv6\<close> flag otherwise, and sets the version tag by the same test.
  On an error it prints the error and exits with code 1; otherwise it prints the
  response. The three flags are defined by the command, so reading them does not fail.
\<close>

datatype 'm cmd_outcome = Exit1 string | Printed 'm

definition addPrefixCmd :: "(InterfacePrefixMsg \<Rightarrow> string + 'm) \<Rightarrow> string \<Rightarrow> string \<Rightarrow> string \<Rightarrow> 'm cmd_outcome" where
  "addPrefixCmd AddInterfacePrefix machinId ipv4 ipv6 =
     (case (if ipv4 \<noteq> [] then ParsePrefix ipv4 else ParsePrefix ipv6) of
        Inl err \<Rightarrow> Exit1 err
      | Inr ipPrefix \<Rightarrow>
          (case AddInterfacePrefix
                  \<lparr>ipm_InterfaceID = machinId,
                   ipm_Prefix =
                     \<lparr>pfx_IpVersion = (if ipv4 \<noteq> [] then IPVersion_IPv4 else IPVersion_IPv6),
                      pfx_Address = Addr_String (Prefix_Addr ipPrefix),
                      pfx_PrefixLength = word_of_int (Bits ipPrefix)\<rparr>\<rparr> of
             Inl err \<Rightarrow> Exit1 err
           | Inr msg \<Rightarrow> Printed msg))"

section \<open>Sample values\<close>

text \<open>Concrete requests and responses at which the theorems below are instantiated.\<close>

definition not_found :: Status where
  "not_found = \<lparr>Error = 5, Message = ''not found''\<rparr>"

definition ok_status :: Status where
  "ok_status = \<lparr>Error = 0, Message = []\<rparr>"

definition failed_reply :: StatusReply where
  "failed_reply = \<lparr>GetStatus = Some not_found\<rparr>"

definition failed_underlay_reply :: UnderlayReply where
  "failed_underlay_reply = \<lparr>GetStatus = Some not_found, GetUnderlayRoute = ''ff80::5''\<rparr>"

definition sample_lb :: LoadBalancer where
  "sample_lb =
     \<lparr>lb_TypeMeta = \<lparr>Kind = []\<rparr>,
      lb_LoadBalancerMeta = \<lparr>lbm_ID = ''4''\<rparr>,
      lb_Spec = \<lparr>lbs_VNI = 100, lbs_LbVipIP = Addr4 10 20 30 40,
                 lbs_Lbports = [\<lparr>lbport_Protocol = 6, lbport_Port = 443\<rparr>, \<lparr>lbport_Protocol = 17, lbport_Port = 53\<rparr>],
                 lbs_UnderlayRoute = AddrZero\<rparr>,
      lb_Status = \<lparr>lbst_Error = 0, lbst_Message = []\<rparr>\<rparr>"

definition sample_prefix :: "unit ApiPrefix" where
  "sample_prefix =
     \<lparr>p_TypeMeta = \<lparr>Kind = []\<rparr>,
      p_PrefixMeta = \<lparr>pm_InterfaceID = ''iface-1'', pm_Prefix = Prefix (Addr4 10 0 0 0) 24\<rparr>,
      p_Spec = ()\<rparr>"

definition sample_target :: "TargetIP LoadBalancerTarget" where
  "sample_target =
     \<lparr>lt_TypeMeta = \<lparr>Kind = []\<rparr>,
      lt_LoadBalancerTargetMeta = \<lparr>ltm_ID = ''4''\<rparr>,
      lt_Spec = \<lparr>lts_TargetIP = \<lparr>tip_Address = Addr6 0xff80 0 0 0 0 0 0 5 []\<rparr>\<rparr>\<rparr>"

definition sample_iface :: Interface where
  "sample_iface =
     \<lparr>i_TypeMeta = \<lparr>Kind = []\<rparr>,
      i_InterfaceMeta = \<lparr>im_ID = ''iface-1''\<rparr>,
      i_Spec = \<lparr>is_VNI = 100, is_Device = ''net_tap0'', is_IPs = [Addr4 10 0 0 1]\<rparr>,
      i_Status = \<lparr>ist_UnderlayIP = AddrZero\<rparr>\<rparr>"

definition sample_vip :: "unit VirtualIP" where
  "sample_vip =
     \<lparr>v_TypeMeta = \<lparr>Kind = []\<rparr>,
      v_VirtualIPMeta = \<lparr>vm_InterfaceID = ''iface-1'', vm_IP = Addr4 10 20 30 40\<rparr>,
      v_Spec = ()\<rparr>"

definition sample_route :: "unit Route" where
  "sample_route =
     \<lparr>r_TypeMeta = \<lparr>Kind = []\<rparr>,
      r_RouteMeta = \<lparr>rm_VNI = 100, rm_Prefix = Prefix (Addr4 10 0 0 0) 24,
                     rm_NextHop = \<lparr>nh_VNI = 200, nh_IP = Addr6 0xff80 0 0 0 0 0 0 1 []\<rparr>\<rparr>,
      r_Spec = ()\<rparr>"

definition sample_nat :: Nat where
  "sample_nat =
     \<lparr>n_TypeMeta = \<lparr>Kind = []\<rparr>,
      n_NatMeta = \<lparr>nm_InterfaceID = ''iface-1''\<rparr>,
      n_Spec = \<lparr>ns_NatVIPIP = Addr4 10 20 30 40, ns_MinPort = 30000, ns_MaxPort = 30100,
                ns_UnderlayRoute = AddrZero\<rparr>,
      n_Status = \<lparr>nst_Error = 0, nst_Message = []\<rparr>\<rparr>"


definition unparsable_reply :: UnderlayReply where
  "unparsable_reply = \<lparr>GetStatus = Some ok_status, GetUnderlayRoute = ''no-address''\<rparr>"

definition assigned_reply :: UnderlayReply where
  "assigned_reply = \<lparr>GetStatus = Some ok_status, GetUnderlayRoute = ''ff80::5''\<rparr>"


definition route_of :: "32 word \<Rightarrow> nat \<Rightarrow> string + nat Route" where
  "route_of vni n =
     (if n = 0 then Inl ''malformed''
      else Inr \<lparr>r_TypeMeta = \<lparr>Kind = RouteKind\<rparr>, r_RouteMeta = RouteMeta_zero, r_Spec = n\<rparr>)"

definition zero_route :: "nat Route" where
  "zero_route = \<lparr>r_TypeMeta = \<lparr>Kind = []\<rparr>, r_RouteMeta = RouteMeta_zero, r_Spec = 0\<rparr>"

section \<open>Properties of the wire client\<close>

subsection \<open>When an operation returns a status error\<close>

lemma delete_result_StatusError:
  "delete_result r = Inl (StatusError c m) \<longleftrightarrow> (\<exists>res. r = Inr res \<and> reports (Some res) c m)"
  by (auto simp: delete_result_def reports_def GetError_def GetMessage_def split: sum.splits)

lemma decode_with_not_StatusError: "decode_with f x \<noteq> Inl (StatusError c m)"
  by (simp add: decode_with_def split: sum.splits)

lemma range_loop_Inl: "range_loop f xs i items = Inl e \<Longrightarrow> \<exists>x \<in> set xs. f x = Inl e"
  by (induction xs arbitrary: i items) (auto split: sum.splits)

lemma translate_items_Inl: "translate_items f z xs = Inl e \<Longrightarrow> \<exists>x \<in> set xs. f x = Inl e"
  unfolding translate_items_def by (rule range_loop_Inl)

lemma translate_decode_not_StatusError: "translate_items (decode_with f) z xs \<noteq> Inl (StatusError c m)"
  using translate_items_Inl [of "decode_with f" z xs "StatusError c m"]
  by (auto simp: decode_with_not_StatusError)

lemma GetLoadBalancer_StatusError:
  "GetLoadBalancer rpc dec ident = Inl (StatusError c m) \<longleftrightarrow>
   (\<exists>res. rpc ident = Inr res \<and> reports (GetStatus res) c m)"
  by (auto simp: GetLoadBalancer_def status_error_def reports_def split: sum.splits)

lemma CreateLoadBalancer_StatusError:
  "fst (CreateLoadBalancer rpc f lb) = Inl (StatusError c m) \<longleftrightarrow>
   (\<exists>res. rpc (CreateLoadBalancer_request f lb) = Inr res \<and> reports (GetStatus res) c m)"
  by (auto simp: CreateLoadBalancer_def status_error_def reports_def Let_def split: sum.splits option.splits)

lemma DeleteLoadBalancer_StatusError:
  "DeleteLoadBalancer rpc ident = Inl (StatusError c m) \<longleftrightarrow>
   (\<exists>res. rpc ident = Inr res \<and> reports (Some res) c m)"
  by (simp add: DeleteLoadBalancer_def delete_result_StatusError)

lemma ListLoadBalancerPrefixes_not_StatusError:
  "ListLoadBalancerPrefixes rpc f g z ident \<noteq> Inl (StatusError c m)"
  by (auto simp: ListLoadBalancerPrefixes_def translate_decode_not_StatusError split: sum.splits)

lemma CreateLoadBalancerPrefix_StatusError:
  "CreateLoadBalancerPrefix rpc prefix = Inl (StatusError c m) \<longleftrightarrow>
   (\<exists>res. rpc (CreatePrefix_request prefix) = Inr res \<and> reports (GetStatus res) c m)"
  by (auto simp: CreateLoadBalancerPrefix_def status_error_def reports_def split: sum.splits)

lemma DeleteLoadBalancerPrefix_StatusError:
  "DeleteLoadBalancerPrefix rpc ident prefix = Inl (StatusError c m) \<longleftrightarrow>
   (\<exists>res. rpc (interface_prefix_msg ident prefix) = Inr res \<and> reports (Some res) c m)"
  by (simp add: DeleteLoadBalancerPrefix_def delete_result_StatusError)

lemma GetLoadBalancerTargets_StatusError:
  "GetLoadBalancerTargets rpc f z ident = Inl (StatusError c m) \<longleftrightarrow>
   (\<exists>res. rpc ident = Inr res \<and> reports (GetStatus res) c m)"
  by (auto simp: GetLoadBalancerTargets_def status_error_def reports_def lbtarget_of_def
      split: sum.splits option.splits dest!: translate_items_Inl)

lemma CreateLoadBalancerTarget_StatusError:
  "CreateLoadBalancerTarget rpc f lbtarget = Inl (StatusError c m) \<longleftrightarrow>
   (\<exists>res. rpc (lbtarget_msg f (ltm_ID (lt_LoadBalancerTargetMeta lbtarget))
                 (tip_Address (lts_TargetIP (lt_Spec lbtarget)))) = Inr res \<and> reports (Some res) c m)"
  by (auto simp: CreateLoadBalancerTarget_def reports_def GetError_def GetMessage_def split: sum.splits)

lemma DeleteLoadBalancerTarget_StatusError:
  "DeleteLoadBalancerTarget rpc f ident targetIP = Inl (StatusError c m) \<longleftrightarrow>
   (\<exists>res. rpc (lbtarget_msg f ident targetIP) = Inr res \<and> reports (Some res) c m)"
  by (simp add: DeleteLoadBalancerTarget_def delete_result_StatusError)

lemma GetInterface_StatusError:
  "GetInterface rpc dec ident = Inl (StatusError c m) \<longleftrightarrow>
   (\<exists>res. rpc ident = Inr res \<and> reports (GetStatus res) c m)"
  by (auto simp: GetInterface_def status_error_def reports_def decode_with_not_StatusError split: sum.splits)

lemma ListInterfaces_not_StatusError:
  "ListInterfaces rpc f z \<noteq> Inl (StatusError c m)"
  by (auto simp: ListInterfaces_def translate_decode_not_StatusError split: sum.splits)

lemma CreateInterface_StatusError:
  "CreateInterface rpc g f4 f6 iface = Inl (StatusError c m) \<longleftrightarrow>
   (\<exists>res. rpc (CreateInterface_request g f4 f6 iface) = Inr res
      \<and> reports (Response_GetStatus (GetResponse res)) c m)"
  by (auto simp: CreateInterface_def status_error_def reports_def split: sum.splits)

lemma DeleteInterface_StatusError:
  "DeleteInterface rpc ident = Inl (StatusError c m) \<longleftrightarrow>
   (\<exists>res. rpc ident = Inr res \<and> reports (Some res) c m)"
  by (simp add: DeleteInterface_def delete_result_StatusError)

lemma GetVirtualIP_StatusError:
  "GetVirtualIP rpc dec ident = Inl (StatusError c m) \<longleftrightarrow>
   (\<exists>res. rpc ident = Inr res \<and> reports (GetStatus res) c m)"
  by (auto simp: GetVirtualIP_def status_error_def reports_def decode_with_not_StatusError split: sum.splits)

lemma CreateVirtualIP_StatusError:
  "CreateVirtualIP rpc virtualIP = Inl (StatusError c m) \<longleftrightarrow>
   (\<exists>res. rpc (CreateVirtualIP_request virtualIP) = Inr res \<and> reports (GetStatus res) c m)"
  by (auto simp: CreateVirtualIP_def status_error_def reports_def split: sum.splits)

lemma DeleteVirtualIP_StatusError:
  "DeleteVirtualIP rpc ident = Inl (StatusError c m) \<longleftrightarrow>
   (\<exists>res. rpc ident = Inr res \<and> reports (Some res) c m)"
  by (simp add: DeleteVirtualIP_def delete_result_StatusError)

lemma ListPrefixes_not_StatusError:
  "ListPrefixes rpc f z ident \<noteq> Inl (StatusError c m)"
  by (auto simp: ListPrefixes_def translate_decode_not_StatusError split: sum.splits)

lemma CreatePrefix_StatusError:
  "CreatePrefix rpc prefix = Inl (StatusError c m) \<longleftrightarrow>
   (\<exists>res. rpc (CreatePrefix_request prefix) = Inr res \<and> reports (GetStatus res) c m)"
  by (auto simp: CreatePrefix_def status_error_def reports_def split: sum.splits)

lemma DeletePrefix_StatusError:
  "DeletePrefix rpc ident prefix = Inl (StatusError c m) \<longleftrightarrow>
   (\<exists>res. rpc (interface_prefix_msg ident prefix) = Inr res \<and> reports (Some res) c m)"
  by (simp add: DeletePrefix_def delete_result_StatusError)

lemma CreateRoute_StatusError:
  "CreateRoute rpc route = Inl (StatusError c m) \<longleftrightarrow>
   (\<exists>res. rpc (CreateRoute_request route) = Inr res \<and> reports (Some res) c m)"
  by (auto simp: CreateRoute_def reports_def GetError_def GetMessage_def split: sum.splits)

lemma DeleteRoute_StatusError:
  "DeleteRoute rpc vni prefix nextHopVNI nextHopIP = Inl (StatusError c m) \<longleftrightarrow>
   (\<exists>res. rpc (DeleteRoute_request vni prefix nextHopVNI nextHopIP) = Inr res \<and> reports (Some res) c m)"
  by (simp add: DeleteRoute_def delete_result_StatusError)

lemma ListRoutes_not_StatusError:
  "ListRoutes rpc f z vni \<noteq> Inl (StatusError c m)"
  by (auto simp: ListRoutes_def translate_decode_not_StatusError split: sum.splits)

lemma GetNat_StatusError:
  "GetNat rpc dec ident = Inl (StatusError c m) \<longleftrightarrow>
   (\<exists>res. rpc ident = Inr res \<and> reports (GetStatus res) c m)"
  by (auto simp: GetNat_def status_error_def reports_def split: sum.splits)

lemma CreateNat_StatusError:
  "fst (CreateNat rpc natx) = Inl (StatusError c m) \<longleftrightarrow>
   (\<exists>res. rpc (CreateNat_request natx) = Inr res \<and> reports (GetStatus res) c m)"
  by (auto simp: CreateNat_def status_error_def reports_def Let_def split: sum.splits option.splits)

text \<open>
  Claim C2. An operation of the wire client returns the status error of a code and a
  message exactly when the remote call itself succeeded and the status of the response
  carries that code, which is not zero, and that message: the error holds the two
  values of the response unchanged. The four list operations never return a status
  error.
\<close>

theorem status_error_carries_response_status:
  fixes rpc_get :: "string \<Rightarrow> 't + 'z StatusReply_scheme"
    and rpc_del :: "string \<Rightarrow> 't + Status"
  shows
  "(GetLoadBalancer rpc_get decLB ident = Inl (StatusError c m :: ('t, 'd) client_error) \<longleftrightarrow>
      (\<exists>res. rpc_get ident = Inr res \<and> reports (GetStatus res) c m))
   \<and> (fst (CreateLoadBalancer rpc_clb toLbip lb) = Inl (StatusError c m :: ('t, 'd) client_error) \<longleftrightarrow>
      (\<exists>res. rpc_clb (CreateLoadBalancer_request toLbip lb) = Inr res \<and> reports (GetStatus res) c m))
   \<and> (DeleteLoadBalancer rpc_del ident = Inl (StatusError c m :: ('t, 'd) client_error) \<longleftrightarrow>
      (\<exists>res. rpc_del ident = Inr res \<and> reports (Some res) c m))
   \<and> ListLoadBalancerPrefixes rpc_lbpfxs decPfx lbconv zeroPfx ident \<noteq> Inl (StatusError c m :: ('t, 'd) client_error)
   \<and> (CreateLoadBalancerPrefix rpc_pfx prefix = Inl (StatusError c m :: ('t, 'd) client_error) \<longleftrightarrow>
      (\<exists>res. rpc_pfx (CreatePrefix_request prefix) = Inr res \<and> reports (GetStatus res) c m))
   \<and> (DeleteLoadBalancerPrefix rpc_dpfx ident pfx = Inl (StatusError c m :: ('t, 'd) client_error) \<longleftrightarrow>
      (\<exists>res. rpc_dpfx (interface_prefix_msg ident pfx) = Inr res \<and> reports (Some res) c m))
   \<and> (GetLoadBalancerTargets rpc_tgts fromLbip zeroTgt ident = Inl (StatusError c m :: ('t, 'd) client_error) \<longleftrightarrow>
      (\<exists>res. rpc_tgts ident = Inr res \<and> reports (GetStatus res) c m))
   \<and> (CreateLoadBalancerTarget rpc_tgt toLbip lbtarget = Inl (StatusError c m :: ('t, 'd) client_error) \<longleftrightarrow>
      (\<exists>res. rpc_tgt (lbtarget_msg toLbip (ltm_ID (lt_LoadBalancerTargetMeta lbtarget))
                        (tip_Address (lts_TargetIP (lt_Spec lbtarget)))) = Inr res \<and> reports (Some res) c m))
   \<and> (DeleteLoadBalancerTarget rpc_tgt toLbip ident targetIP = Inl (StatusError c m :: ('t, 'd) client_error) \<longleftrightarrow>
      (\<exists>res. rpc_tgt (lbtarget_msg toLbip ident targetIP) = Inr res \<and> reports (Some res) c m))
   \<and> (GetInterface rpc_gif decIf ident = Inl (StatusError c m :: ('t, 'd) client_error) \<longleftrightarrow>
      (\<exists>res. rpc_gif ident = Inr res \<and> reports (GetStatus res) c m))
   \<and> ListInterfaces rpc_lif decIf zeroIf \<noteq> Inl (StatusError c m :: ('t, 'd) client_error)
   \<and> (CreateInterface rpc_cif toCfg findFour findSix iface = Inl (StatusError c m :: ('t, 'd) client_error) \<longleftrightarrow>
      (\<exists>res. rpc_cif (CreateInterface_request toCfg findFour findSix iface) = Inr res
         \<and> reports (Response_GetStatus (GetResponse res)) c m))
   \<and> (DeleteInterface rpc_del ident = Inl (StatusError c m :: ('t, 'd) client_error) \<longleftrightarrow>
      (\<exists>res. rpc_del ident = Inr res \<and> reports (Some res) c m))
   \<and> (GetVirtualIP rpc_get decVip ident = Inl (StatusError c m :: ('t, 'd) client_error) \<longleftrightarrow>
      (\<exists>res. rpc_get ident = Inr res \<and> reports (GetStatus res) c m))
   \<and> (CreateVirtualIP rpc_vip virtualIP = Inl (StatusError c m :: ('t, 'd) client_error) \<longleftrightarrow>
      (\<exists>res. rpc_vip (CreateVirtualIP_request virtualIP) = Inr res \<and> reports (GetStatus res) c m))
   \<and> (DeleteVirtualIP rpc_del ident = Inl (StatusError c m :: ('t, 'd) client_error) \<longleftrightarrow>
      (\<exists>res. rpc_del ident = Inr res \<and> reports (Some res) c m))
   \<and> ListPrefixes rpc_pfxs decPfx zeroPfx ident \<noteq> Inl (StatusError c m :: ('t, 'd) client_error)
   \<and> (CreatePrefix rpc_pfx prefix = Inl (StatusError c m :: ('t, 'd) client_error) \<longleftrightarrow>
      (\<exists>res. rpc_pfx (CreatePrefix_request prefix) = Inr res \<and> reports (GetStatus res) c m))
   \<and> (DeletePrefix rpc_dpfx ident pfx = Inl (StatusError c m :: ('t, 'd) client_error) \<longleftrightarrow>
      (\<exists>res. rpc_dpfx (interface_prefix_msg ident pfx) = Inr res \<and> reports (Some res) c m))
   \<and> (CreateRoute rpc_route route = Inl (StatusError c m :: ('t, 'd) client_error) \<longleftrightarrow>
      (\<exists>res. rpc_route (CreateRoute_request route) = Inr res \<and> reports (Some res) c m))
   \<and> (DeleteRoute rpc_route vni pfx nextHopVNI nextHopIP = Inl (StatusError c m :: ('t, 'd) client_error) \<longleftrightarrow>
      (\<exists>res. rpc_route (DeleteRoute_request vni pfx nextHopVNI nextHopIP) = Inr res \<and> reports (Some res) c m))
   \<and> ListRoutes rpc_routes decRoute zeroRoute vni \<noteq> Inl (StatusError c m :: ('t, 'd) client_error)
   \<and> (GetNat rpc_get decNat ident = Inl (StatusError c m :: ('t, 'd) client_error) \<longleftrightarrow>
      (\<exists>res. rpc_get ident = Inr res \<and> reports (GetStatus res) c m))
   \<and> (fst (CreateNat rpc_nat natx) = Inl (StatusError c m :: ('t, 'd) client_error) \<longleftrightarrow>
      (\<exists>res. rpc_nat (CreateNat_request natx) = Inr res \<and> reports (GetStatus res) c m))"
  by (simp add: GetLoadBalancer_StatusError CreateLoadBalancer_StatusError DeleteLoadBalancer_StatusError
      ListLoadBalancerPrefixes_not_StatusError CreateLoadBalancerPrefix_StatusError
      DeleteLoadBalancerPrefix_StatusError GetLoadBalancerTargets_StatusError
      CreateLoadBalancerTarget_StatusError DeleteLoadBalancerTarget_StatusError GetInterface_StatusError
      ListInterfaces_not_StatusError CreateInterface_StatusError DeleteInterface_StatusError
      GetVirtualIP_StatusError CreateVirtualIP_StatusError DeleteVirtualIP_StatusError
      ListPrefixes_not_StatusError CreatePrefix_StatusError DeletePrefix_StatusError
      CreateRoute_StatusError DeleteRoute_StatusError ListRoutes_not_StatusError
      GetNat_StatusError CreateNat_StatusError)

theorem status_error_carries_response_status_witness:
  "(GetLoadBalancer (\<lambda>i. Inr failed_reply) (\<lambda>r i. Inl ()) ''4'' = Inl (StatusError 5 ''not found'' :: (unit, unit) client_error)
    \<and> fst (CreateLoadBalancer (\<lambda>r. Inr failed_underlay_reply) id sample_lb) = Inl (StatusError 5 ''not found'' :: (unit, unit) client_error)
    \<and> DeleteLoadBalancer (\<lambda>i. Inr not_found) ''4'' = Inl (StatusError 5 ''not found'' :: (unit, unit) client_error)
    \<and> CreateLoadBalancerPrefix (\<lambda>r. Inr failed_reply) sample_prefix = Inl (StatusError 5 ''not found'' :: (unit, unit) client_error)
    \<and> DeleteLoadBalancerPrefix (\<lambda>r. Inr not_found) ''4'' (Prefix (Addr4 10 0 0 0) 24) = Inl (StatusError 5 ''not found'' :: (unit, unit) client_error)
    \<and> GetLoadBalancerTargets (\<lambda>i. Inr \<lparr>GetStatus = Some not_found, GetTargetIPs = [Addr4 10 0 0 1]\<rparr>) (\<lambda>a. Some \<lparr>tip_Address = a\<rparr>) sample_target ''4''
        = Inl (StatusError 5 ''not found'' :: (unit, unit) client_error)
    \<and> CreateLoadBalancerTarget (\<lambda>r. Inr not_found) id sample_target = Inl (StatusError 5 ''not found'' :: (unit, unit) client_error)
    \<and> DeleteLoadBalancerTarget (\<lambda>r. Inr not_found) id ''4'' (Addr4 10 0 0 1) = Inl (StatusError 5 ''not found'' :: (unit, unit) client_error)
    \<and> GetInterface (\<lambda>i. Inr \<lparr>GetStatus = Some not_found, GetInterface_field = ()\<rparr>) (\<lambda>i. Inl ()) ''4'' = Inl (StatusError 5 ''not found'' :: (unit, unit) client_error)
    \<and> CreateInterface (\<lambda>r. Inr \<lparr>GetResponse = Some failed_underlay_reply\<rparr>) id hd last sample_iface = Inl (StatusError 5 ''not found'' :: (unit, unit) client_error)
    \<and> DeleteInterface (\<lambda>i. Inr not_found) ''4'' = Inl (StatusError 5 ''not found'' :: (unit, unit) client_error)
    \<and> GetVirtualIP (\<lambda>i. Inr failed_reply) (\<lambda>i r. Inl ()) ''4'' = Inl (StatusError 5 ''not found'' :: (unit, unit) client_error)
    \<and> CreateVirtualIP (\<lambda>r. Inr failed_reply) sample_vip = Inl (StatusError 5 ''not found'' :: (unit, unit) client_error)
    \<and> DeleteVirtualIP (\<lambda>i. Inr not_found) ''4'' = Inl (StatusError 5 ''not found'' :: (unit, unit) client_error)
    \<and> CreatePrefix (\<lambda>r. Inr failed_reply) sample_prefix = Inl (StatusError 5 ''not found'' :: (unit, unit) client_error)
    \<and> DeletePrefix (\<lambda>r. Inr not_found) ''4'' (Prefix (Addr4 10 0 0 0) 24) = Inl (StatusError 5 ''not found'' :: (unit, unit) client_error)
    \<and> CreateRoute (\<lambda>r. Inr not_found) sample_route = Inl (StatusError 5 ''not found'' :: (unit, unit) client_error)
    \<and> DeleteRoute (\<lambda>r. Inr not_found) 100 (Prefix (Addr4 10 0 0 0) 24) 200 (Addr4 10 0 0 1) = Inl (StatusError 5 ''not found'' :: (unit, unit) client_error)
    \<and> GetNat (\<lambda>i. Inr failed_reply) (\<lambda>r i. Inl ()) ''4'' = Inl (StatusError 5 ''not found'' :: (unit, unit) client_error)
    \<and> fst (CreateNat (\<lambda>r. Inr failed_underlay_reply) sample_nat) = Inl (StatusError 5 ''not found'' :: (unit, unit) client_error))
   \<and> reports (Some not_found) 5 ''not found''"
  using status_error_carries_response_status [where ?'t = unit and ?'d = unit
      and c = 5 and m = "''not found''" and ident = "''4''"
      and rpc_get = "\<lambda>i. Inr failed_reply" and decLB = "\<lambda>r i. Inl ()"
      and decVip = "\<lambda>i r. Inl ()" and decNat = "\<lambda>r i. Inl ()"
      and rpc_clb = "\<lambda>r. Inr failed_underlay_reply" and toLbip = id and lb = sample_lb
      and rpc_del = "\<lambda>i. Inr not_found"
      and rpc_pfx = "\<lambda>r. Inr failed_reply" and prefix = sample_prefix
      and rpc_dpfx = "\<lambda>r. Inr not_found" and pfx = "Prefix (Addr4 10 0 0 0) 24"
      and rpc_tgts = "\<lambda>i. Inr \<lparr>GetStatus = Some not_found, GetTargetIPs = [Addr4 10 0 0 1]\<rparr>"
      and fromLbip = "\<lambda>a. Some \<lparr>tip_Address = a\<rparr>" and zeroTgt = sample_target
      and rpc_tgt = "\<lambda>r. Inr not_found" and lbtarget = sample_target and targetIP = "Addr4 10 0 0 1"
      and rpc_gif = "\<lambda>i. Inr \<lparr>GetStatus = Some not_found, GetInterface_field = ()\<rparr>" and decIf = "\<lambda>i. Inl ()"
      and rpc_cif = "\<lambda>r. Inr \<lparr>GetResponse = Some failed_underlay_reply\<rparr>" and toCfg = id and findFour = hd and findSix = last
      and iface = sample_iface
      and rpc_vip = "\<lambda>r. Inr failed_reply" and virtualIP = sample_vip
      and rpc_route = "\<lambda>r. Inr not_found" and route = sample_route and vni = 100 and nextHopVNI = 200
      and nextHopIP = "Addr4 10 0 0 1"
      and rpc_nat = "\<lambda>r. Inr failed_underlay_reply" and natx = sample_nat]
  by (simp add: GetLoadBalancer_def CreateLoadBalancer_def DeleteLoadBalancer_def CreateLoadBalancerPrefix_def
      DeleteLoadBalancerPrefix_def GetLoadBalancerTargets_def CreateLoadBalancerTarget_def
      DeleteLoadBalancerTarget_def GetInterface_def CreateInterface_def DeleteInterface_def GetVirtualIP_def
      CreateVirtualIP_def DeleteVirtualIP_def CreatePrefix_def DeletePrefix_def CreateRoute_def DeleteRoute_def
      GetNat_def CreateNat_def delete_result_def status_error_def GetError_def GetMessage_def
      Response_GetStatus_def not_found_def failed_reply_def failed_underlay_reply_def reports_def)

subsection \<open>Evaluating the address functions\<close>

lemmas parseIPv6_loop_numeral =
  parseIPv6_loop.simps(2) [of "pred_numeral k" for k, folded numeral_eq_Suc]

lemma replicate_numeral: "replicate (numeral k) x = x # replicate (pred_numeral k) x"
  by (simp add: numeral_eq_Suc)

lemma ParseAddr_no_address: "ParseAddr ''no-address'' = Inl ''unable to parse IP''"
  by (simp add: ParseAddr_def)

lemma ParseAddr_ff80_5: "ParseAddr ''ff80::5'' = Inr (Addr6 0xff80 0 0 0 0 0 0 5 [])"
  by (simp add: ParseAddr_def parseIPv6_def parseIPv6_loop_numeral hex_val_def byte_def Let_def
      replicate_numeral)

subsection \<open>The status check\<close>








subsection \<open>An underlay route that does not parse\<close>

text \<open>
  Claim C3. When the response of \<^verbatim>\<open>CreateLoadBalancer\<close>, \<^verbatim>\<open>CreateInterface\<close> or \<^verbatim>\<open>CreateNat\<close>
  carries the status code zero and an underlay route that \<^verbatim>\<open>ParseAddr\<close> refuses, the
  operation returns the error that wraps the parse error, which is not a status error,
  and no result struct; the argument of \<^verbatim>\<open>CreateLoadBalancer\<close> and of \<^verbatim>\<open>CreateNat\<close> is left
  as it was.
\<close>

theorem unparsable_underlay_route_is_an_error:
  "(rpc_clb (CreateLoadBalancer_request toLbip lb) = Inr res \<and> GetError (GetStatus res) = 0
      \<and> ParseAddr (GetUnderlayRoute res) = Inl e
     \<longrightarrow> CreateLoadBalancer rpc_clb toLbip lb = (Inl (UnderlayRouteError e), lb))
   \<and> (rpc_cif (CreateInterface_request toCfg findFour findSix iface) = Inr resi
      \<and> GetError (Response_GetStatus (GetResponse resi)) = 0
      \<and> ParseAddr (Response_GetUnderlayRoute (GetResponse resi)) = Inl e
     \<longrightarrow> CreateInterface rpc_cif toCfg findFour findSix iface = Inl (UnderlayRouteError e))
   \<and> (rpc_nat (CreateNat_request natx) = Inr res \<and> GetError (GetStatus res) = 0
      \<and> ParseAddr (GetUnderlayRoute res) = Inl e
     \<longrightarrow> CreateNat rpc_nat natx = (Inl (UnderlayRouteError e), natx))
   \<and> (\<forall>c m. (UnderlayRouteError e :: ('t, 'd) client_error) \<noteq> StatusError c m)"
  by (simp add: CreateLoadBalancer_def CreateInterface_def CreateNat_def)

theorem unparsable_underlay_route_is_an_error_witness:
  "CreateLoadBalancer (\<lambda>r. Inr unparsable_reply) id sample_lb
     = (Inl (UnderlayRouteError ''unable to parse IP'' :: (unit, unit) client_error), sample_lb)
   \<and> CreateInterface (\<lambda>r. Inr \<lparr>GetResponse = Some unparsable_reply\<rparr>) id hd last sample_iface
     = Inl (UnderlayRouteError ''unable to parse IP'' :: (unit, unit) client_error)
   \<and> CreateNat (\<lambda>r. Inr unparsable_reply) sample_nat
     = (Inl (UnderlayRouteError ''unable to parse IP'' :: (unit, unit) client_error), sample_nat)"
  using unparsable_underlay_route_is_an_error [where ?'a = unit and ?'b = unit and ?'t = unit and ?'d = unit
      and rpc_clb = "\<lambda>r. Inr unparsable_reply" and toLbip = id and lb = sample_lb
      and res = unparsable_reply and e = "''unable to parse IP''"
      and rpc_cif = "\<lambda>r. Inr \<lparr>GetResponse = Some unparsable_reply\<rparr>" and toCfg = id
      and findFour = hd and findSix = last
      and iface = sample_iface and resi = "\<lparr>GetResponse = Some unparsable_reply\<rparr>"
      and rpc_nat = "\<lambda>r. Inr unparsable_reply" and natx = sample_nat]
  by (simp add: unparsable_reply_def ok_status_def GetError_def Response_GetStatus_def
      Response_GetUnderlayRoute_def ParseAddr_no_address)

subsection \<open>Route requests\<close>

lemma Prefix_String_10_0_0_0_24: "Prefix_String (Prefix (Addr4 10 0 0 0) 24) = ''10.0.0.0/24''"
  by (simp add: Prefix_String_def Prefix_IsValid_def string4_def appendDecimal_def Itoa_def
      digit_char_def digits_def)

lemma string4_10_0_0_0: "string4 10 0 0 0 = ''10.0.0.0''"
  by (simp add: string4_def appendDecimal_def digit_char_def digits_def)

lemma string6_ff80_1: "string6 [0xff80, 0, 0, 0, 0, 0, 0, 1] [] = ''ff80::1''"
  by (simp add: string6_def longest_zero_run_def zero_run_at_def appendHex_def hex_char_def
      digits_def Let_def upt_rec)

lemma ParseAddr_prefix_text: "ParseAddr ''10.0.0.0/24'' = Inl ''unexpected character''"
  by (simp add: ParseAddr_def parseIPv4_def is_digit_def digit_val_def byte_def)

text \<open>
  Claim C4, at the spec's scenario: the route of VNI 100, prefix 10.0.0.0/24, next-hop
  VNI 200 and next-hop address ff80::1. The remote call below answers with success on
  one request only and with a transport error on every other, so the first two results
  say which request \<^verbatim>\<open>DeleteRoute\<close> and \<^verbatim>\<open>CreateRoute\<close> send. Its weight is 100, as the
  claim says. The address field of its prefix is the text of the whole prefix,
  10.0.0.0/24, which no address parser accepts, where \<^verbatim>\<open>CreatePrefix\<close> sends the text of
  the address, 10.0.0.0, for the same prefix.
\<close>

theorem route_request_address_field_holds_prefix_text:
  "DeleteRoute
     (\<lambda>req. if req = \<lparr>vr_Vni = 100,
                       vr_Route = \<lparr>rt_IpVersion = IPVersion_IPv6, rt_Weight = 100,
                                   rt_Prefix = \<lparr>pfx_IpVersion = IPVersion_IPv4, pfx_Address = ''10.0.0.0/24'',
                                                pfx_PrefixLength = 24\<rparr>,
                                   rt_NexthopVNI = 200, rt_NexthopAddress = ''ff80::1''\<rparr>\<rparr>
            then Inr ok_status else Inl ())
     100 (Prefix (Addr4 10 0 0 0) 24) 200 (Addr6 0xff80 0 0 0 0 0 0 1 [])
     = (Inr () :: (unit, unit) client_error + unit)
   \<and> CreateRoute
     (\<lambda>req. if req = \<lparr>vr_Vni = 100,
                       vr_Route = \<lparr>rt_IpVersion = IPVersion_IPv6, rt_Weight = 100,
                                   rt_Prefix = \<lparr>pfx_IpVersion = IPVersion_IPv4, pfx_Address = ''10.0.0.0/24'',
                                                pfx_PrefixLength = 24\<rparr>,
                                   rt_NexthopVNI = 200, rt_NexthopAddress = ''ff80::1''\<rparr>\<rparr>
            then Inr ok_status else Inl ())
     sample_route
     = (Inr \<lparr>r_TypeMeta = \<lparr>Kind = RouteKind\<rparr>, r_RouteMeta = RouteMeta_zero, r_Spec = ()\<rparr>
          :: (unit, unit) client_error + unit Route)
   \<and> ParseAddr ''10.0.0.0/24'' = Inl ''unexpected character''
   \<and> CreatePrefix
     (\<lambda>req. if req = \<lparr>ipm_InterfaceID = ''iface-1'',
                       ipm_Prefix = \<lparr>pfx_IpVersion = IPVersion_IPv4, pfx_Address = ''10.0.0.0'',
                                     pfx_PrefixLength = 24\<rparr>\<rparr>
            then Inr \<lparr>GetStatus = Some ok_status\<rparr> else Inl ())
     sample_prefix
     = (Inr \<lparr>p_TypeMeta = \<lparr>Kind = PrefixKind\<rparr>, p_PrefixMeta = p_PrefixMeta sample_prefix, p_Spec = ()\<rparr>
          :: (unit, unit) client_error + unit ApiPrefix)"
  by (simp add: DeleteRoute_def DeleteRoute_request_def CreateRoute_def CreateRoute_request_def route_msg_def
      delete_result_def ok_status_def sample_route_def sample_prefix_def NetIPAddrToProtoIPVersion_def
      Prefix_String_10_0_0_0_24 string6_ff80_1 string4_10_0_0_0 ParseAddr_prefix_text
      CreatePrefix_def CreatePrefix_request_def interface_prefix_msg_def prefix_to_proto_def GetError_def)

subsection \<open>What a create operation returns\<close>

text \<open>
  Claim C8, at concrete inputs: the struct that \<^verbatim>\<open>CreateVirtualIP\<close> returns holds the zero
  metadata, not the interface ID and address of its argument, and the struct that
  \<^verbatim>\<open>CreateRoute\<close> returns holds the zero metadata, not the VNI, prefix and next hop of
  its argument; \<^verbatim>\<open>CreatePrefix\<close> returns the metadata of its argument.
\<close>

theorem CreateVirtualIP_and_CreateRoute_drop_metadata:
  "CreateVirtualIP (\<lambda>req. Inr \<lparr>GetStatus = Some ok_status\<rparr>) sample_vip
     = (Inr \<lparr>v_TypeMeta = \<lparr>Kind = VirtualIPKind\<rparr>,
             v_VirtualIPMeta = \<lparr>vm_InterfaceID = [], vm_IP = AddrZero\<rparr>,
             v_Spec = ()\<rparr> :: (unit, unit) client_error + unit VirtualIP)
   \<and> v_VirtualIPMeta sample_vip = \<lparr>vm_InterfaceID = ''iface-1'', vm_IP = Addr4 10 20 30 40\<rparr>
   \<and> CreateRoute (\<lambda>req. Inr ok_status) sample_route
     = (Inr \<lparr>r_TypeMeta = \<lparr>Kind = RouteKind\<rparr>,
             r_RouteMeta = \<lparr>rm_VNI = 0, rm_Prefix = Prefix AddrZero (-1),
                            rm_NextHop = \<lparr>nh_VNI = 0, nh_IP = AddrZero\<rparr>\<rparr>,
             r_Spec = ()\<rparr> :: (unit, unit) client_error + unit Route)
   \<and> rm_VNI (r_RouteMeta sample_route) = 100
   \<and> CreatePrefix (\<lambda>req. Inr \<lparr>GetStatus = Some ok_status\<rparr>) sample_prefix
     = (Inr \<lparr>p_TypeMeta = \<lparr>Kind = PrefixKind\<rparr>,
             p_PrefixMeta = \<lparr>pm_InterfaceID = ''iface-1'', pm_Prefix = Prefix (Addr4 10 0 0 0) 24\<rparr>,
             p_Spec = ()\<rparr> :: (unit, unit) client_error + unit ApiPrefix)"
  by (simp add: CreateVirtualIP_def CreateRoute_def CreatePrefix_def ok_status_def GetError_def sample_vip_def
      sample_route_def sample_prefix_def VirtualIPMeta_zero_def RouteMeta_zero_def Prefix_zero_def)

subsection \<open>The argument of \<^verbatim>\<open>CreateLoadBalancer\<close> and \<^verbatim>\<open>CreateNat\<close> after the call\<close>

lemma lb_update_neq:
  "lbs_UnderlayRoute (lb_Spec lb) \<noteq> r \<Longrightarrow> lb\<lparr>lb_Spec := (lb_Spec lb)\<lparr>lbs_UnderlayRoute := r\<rparr>\<rparr> \<noteq> lb"
proof
  assume ne: "lbs_UnderlayRoute (lb_Spec lb) \<noteq> r"
    and eq: "lb\<lparr>lb_Spec := (lb_Spec lb)\<lparr>lbs_UnderlayRoute := r\<rparr>\<rparr> = lb"
  from eq have "lbs_UnderlayRoute (lb_Spec (lb\<lparr>lb_Spec := (lb_Spec lb)\<lparr>lbs_UnderlayRoute := r\<rparr>\<rparr>))
      = lbs_UnderlayRoute (lb_Spec lb)"
    by (rule arg_cong)
  with ne show False by simp
qed

lemma nat_update_neq:
  "ns_UnderlayRoute (n_Spec natx) \<noteq> r \<Longrightarrow> natx\<lparr>n_Spec := (n_Spec natx)\<lparr>ns_UnderlayRoute := r\<rparr>\<rparr> \<noteq> natx"
proof
  assume ne: "ns_UnderlayRoute (n_Spec natx) \<noteq> r"
    and eq: "natx\<lparr>n_Spec := (n_Spec natx)\<lparr>ns_UnderlayRoute := r\<rparr>\<rparr> = natx"
  from eq have "ns_UnderlayRoute (n_Spec (natx\<lparr>n_Spec := (n_Spec natx)\<lparr>ns_UnderlayRoute := r\<rparr>\<rparr>))
      = ns_UnderlayRoute (n_Spec natx)"
    by (rule arg_cong)
  with ne show False by simp
qed

text \<open>
  Claim C10. When the response carries the status code zero and an underlay route that
  parses, \<^verbatim>\<open>CreateLoadBalancer\<close> and \<^verbatim>\<open>CreateNat\<close> leave the struct of their argument with
  the parsed route in \<^verbatim>\<open>Spec.UnderlayRoute\<close> and every other field as it was; the struct
  differs from the one passed in whenever the route it held differs from the parsed one.
  The write comes before the result is built: the returned struct holds the spec as
  written. On every other path the argument is unchanged.
\<close>

theorem create_writes_underlay_route_into_argument:
  "(rpc_clb (CreateLoadBalancer_request toLbip lb) = Inr res \<and> GetError (GetStatus res) = 0
      \<and> ParseAddr (GetUnderlayRoute res) = Inr r \<longrightarrow>
      snd (CreateLoadBalancer rpc_clb toLbip lb) = lb\<lparr>lb_Spec := (lb_Spec lb)\<lparr>lbs_UnderlayRoute := r\<rparr>\<rparr>
      \<and> (lbs_UnderlayRoute (lb_Spec lb) \<noteq> r \<longrightarrow> snd (CreateLoadBalancer rpc_clb toLbip lb) \<noteq> lb)
      \<and> (\<forall>st. GetStatus res = Some st \<longrightarrow>
            fst (CreateLoadBalancer rpc_clb toLbip lb)
              = Inr \<lparr>lb_TypeMeta = \<lparr>Kind = LoadBalancerKind\<rparr>,
                     lb_LoadBalancerMeta = lb_LoadBalancerMeta lb,
                     lb_Spec = (lb_Spec lb)\<lparr>lbs_UnderlayRoute := r\<rparr>,
                     lb_Status = \<lparr>lbst_Error = Error st, lbst_Message = Message st\<rparr>\<rparr>))
   \<and> (\<not> (\<exists>res r. rpc_clb (CreateLoadBalancer_request toLbip lb) = Inr res \<and> GetError (GetStatus res) = 0
              \<and> ParseAddr (GetUnderlayRoute res) = Inr r) \<longrightarrow>
      snd (CreateLoadBalancer rpc_clb toLbip lb) = lb)
   \<and> (rpc_nat (CreateNat_request natx) = Inr res \<and> GetError (GetStatus res) = 0
      \<and> ParseAddr (GetUnderlayRoute res) = Inr r \<longrightarrow>
      snd (CreateNat rpc_nat natx) = natx\<lparr>n_Spec := (n_Spec natx)\<lparr>ns_UnderlayRoute := r\<rparr>\<rparr>
      \<and> (ns_UnderlayRoute (n_Spec natx) \<noteq> r \<longrightarrow> snd (CreateNat rpc_nat natx) \<noteq> natx)
      \<and> (\<forall>st. GetStatus res = Some st \<longrightarrow>
            fst (CreateNat rpc_nat natx)
              = Inr \<lparr>n_TypeMeta = \<lparr>Kind = NatKind\<rparr>,
                     n_NatMeta = n_NatMeta natx,
                     n_Spec = (n_Spec natx)\<lparr>ns_UnderlayRoute := r\<rparr>,
                     n_Status = \<lparr>nst_Error = Error st, nst_Message = Message st\<rparr>\<rparr>))
   \<and> (\<not> (\<exists>res r. rpc_nat (CreateNat_request natx) = Inr res \<and> GetError (GetStatus res) = 0
              \<and> ParseAddr (GetUnderlayRoute res) = Inr r) \<longrightarrow>
      snd (CreateNat rpc_nat natx) = natx)"
  by (auto simp: CreateLoadBalancer_def CreateNat_def Let_def lb_update_neq nat_update_neq
      split: sum.splits option.splits)

theorem create_writes_underlay_route_into_argument_witness:
  "snd (CreateLoadBalancer (\<lambda>r. Inr assigned_reply) id sample_lb)
     = sample_lb\<lparr>lb_Spec := (lb_Spec sample_lb)\<lparr>lbs_UnderlayRoute := Addr6 0xff80 0 0 0 0 0 0 5 []\<rparr>\<rparr>
   \<and> snd (CreateLoadBalancer (\<lambda>r. Inr assigned_reply) id sample_lb) \<noteq> sample_lb
   \<and> fst (CreateLoadBalancer (\<lambda>r. Inr assigned_reply) id sample_lb)
     = (Inr \<lparr>lb_TypeMeta = \<lparr>Kind = LoadBalancerKind\<rparr>,
             lb_LoadBalancerMeta = lb_LoadBalancerMeta sample_lb,
             lb_Spec = (lb_Spec sample_lb)\<lparr>lbs_UnderlayRoute := Addr6 0xff80 0 0 0 0 0 0 5 []\<rparr>,
             lb_Status = \<lparr>lbst_Error = 0, lbst_Message = []\<rparr>\<rparr> :: (unit, unit) client_error + LoadBalancer)
   \<and> snd (CreateLoadBalancer (\<lambda>r. Inr unparsable_reply) id sample_lb :: ((unit, unit) client_error + LoadBalancer) \<times> LoadBalancer) = sample_lb
   \<and> snd (CreateNat (\<lambda>r. Inr assigned_reply) sample_nat :: ((unit, unit) client_error + Nat) \<times> Nat)
     = sample_nat\<lparr>n_Spec := (n_Spec sample_nat)\<lparr>ns_UnderlayRoute := Addr6 0xff80 0 0 0 0 0 0 5 []\<rparr>\<rparr>
   \<and> snd (CreateNat (\<lambda>r. Inr assigned_reply) sample_nat :: ((unit, unit) client_error + Nat) \<times> Nat) \<noteq> sample_nat
   \<and> snd (CreateNat (\<lambda>r. Inr unparsable_reply) sample_nat :: ((unit, unit) client_error + Nat) \<times> Nat) = sample_nat"
  using create_writes_underlay_route_into_argument [where ?'b = unit and ?'h = unit
      and rpc_clb = "\<lambda>r. Inr assigned_reply" and toLbip = id and lb = sample_lb and res = assigned_reply
      and r = "Addr6 0xff80 0 0 0 0 0 0 5 []" and rpc_nat = "\<lambda>r. Inr assigned_reply" and natx = sample_nat]
    create_writes_underlay_route_into_argument [where ?'b = unit and ?'h = unit
      and rpc_clb = "\<lambda>r. Inr unparsable_reply" and toLbip = id and lb = sample_lb
      and rpc_nat = "\<lambda>r. Inr unparsable_reply" and natx = sample_nat]
  by (simp add: assigned_reply_def unparsable_reply_def ok_status_def GetError_def ParseAddr_ff80_5
      ParseAddr_no_address sample_lb_def sample_nat_def CreateLoadBalancer_def CreateNat_def Let_def)

subsection \<open>The translation loop of the list operations\<close>

lemma range_loop_all_ok:
  "\<forall>x \<in> set xs. \<not> isl (f x) \<Longrightarrow> i + length xs \<le> length items \<Longrightarrow>
   range_loop f xs i items = Inr (take i items @ map (\<lambda>x. projr (f x)) xs @ drop (i + length xs) items)"
proof (induction xs arbitrary: i items)
  case Nil
  then show ?case by simp
next
  case (Cons x xs)
  from Cons.prems obtain y where y: "f x = Inr y"
    by (cases "f x") auto
  have len: "Suc i + length xs \<le> length (items[i := y])"
    using Cons.prems by simp
  have ok: "\<forall>x \<in> set xs. \<not> isl (f x)"
    using Cons.prems by simp
  have i: "i < length items"
    using Cons.prems by simp
  have "take (Suc i) (items[i := y]) = take i items @ [y]"
    using i by (simp add: take_Suc_conv_app_nth)
  then show ?case
    using Cons.IH [OF ok len] y by simp
qed

lemma translate_items_all_ok:
  "\<forall>x \<in> set xs. \<not> isl (f x) \<Longrightarrow> translate_items f z xs = Inr (map (\<lambda>x. projr (f x)) xs)"
  unfolding translate_items_def using range_loop_all_ok [of xs f 0 "replicate (length xs) z"] by simp



lemma range_loop_Inr_all_ok:
  "range_loop f xs i items = Inr out \<Longrightarrow> \<forall>x \<in> set xs. \<not> isl (f x)"
  by (induction xs arbitrary: i items) (auto split: sum.splits)

lemma translate_items_Inr_iff:
  "translate_items f z xs = Inr out \<longleftrightarrow>
   length out = length xs \<and> (\<forall>i < length xs. f (xs ! i) = Inr (out ! i))"
proof
  assume r: "translate_items f z xs = Inr out"
  then have ok: "\<forall>x \<in> set xs. \<not> isl (f x)"
    unfolding translate_items_def by (rule range_loop_Inr_all_ok)
  with r have out: "out = map (\<lambda>x. projr (f x)) xs"
    by (simp add: translate_items_all_ok)
  show "length out = length xs \<and> (\<forall>i < length xs. f (xs ! i) = Inr (out ! i))"
  proof (intro conjI allI impI)
    show "length out = length xs" using out by simp
  next
    fix i assume i: "i < length xs"
    then have "\<not> isl (f (xs ! i))" using ok by simp
    then show "f (xs ! i) = Inr (out ! i)"
      using i out by (cases "f (xs ! i)") auto
  qed
next
  assume h: "length out = length xs \<and> (\<forall>i < length xs. f (xs ! i) = Inr (out ! i))"
  then have ok: "\<forall>x \<in> set xs. \<not> isl (f x)"
    by (auto simp: in_set_conv_nth)
  have "map (\<lambda>x. projr (f x)) xs = out"
    using h by (intro nth_equalityI) auto
  with ok show "translate_items f z xs = Inr out"
    by (simp add: translate_items_all_ok)
qed

lemma decode_with_Inr: "decode_with f x = Inr y \<longleftrightarrow> f x = Inr y"
  by (simp add: decode_with_def split: sum.splits)



lemma wrap_items_Inr_iff:
  "(case t of Inl err \<Rightarrow> Inl err | Inr items \<Rightarrow> Inr \<lparr>il_TypeMeta = k, Items = items\<rparr>) = Inr l \<longleftrightarrow>
   t = Inr (Items l) \<and> il_TypeMeta l = k"
  by (cases t; cases l) auto

lemma ListRoutes_Inr_iff:
  "ListRoutes rpc dec z vni = Inr l \<longleftrightarrow>
   (\<exists>res. rpc vni = Inr res \<and> il_TypeMeta l = \<lparr>Kind = RouteListKind\<rparr>
      \<and> length (Items l) = length (GetRoutes res)
      \<and> (\<forall>i < length (GetRoutes res). dec vni (GetRoutes res ! i) = Inr (Items l ! i)))"
  by (cases "rpc vni")
    (auto simp: ListRoutes_def wrap_items_Inr_iff translate_items_Inr_iff decode_with_Inr)

lemma ListPrefixes_Inr_iff:
  "ListPrefixes rpc dec z ident = Inr l \<longleftrightarrow>
   (\<exists>res. rpc ident = Inr res \<and> il_TypeMeta l = \<lparr>Kind = PrefixListKind\<rparr>
      \<and> length (Items l) = length (GetPrefixes res)
      \<and> (\<forall>i < length (GetPrefixes res). dec ident (GetPrefixes res ! i) = Inr (Items l ! i)))"
  by (cases "rpc ident")
    (auto simp: ListPrefixes_def wrap_items_Inr_iff translate_items_Inr_iff decode_with_Inr)

lemma ListLoadBalancerPrefixes_Inr_iff:
  "ListLoadBalancerPrefixes rpc dec conv z ident = Inr l \<longleftrightarrow>
   (\<exists>res. rpc ident = Inr res \<and> il_TypeMeta l = \<lparr>Kind = PrefixListKind\<rparr>
      \<and> length (Items l) = length (GetPrefixes res)
      \<and> (\<forall>i < length (GetPrefixes res). dec ident (conv (GetPrefixes res ! i)) = Inr (Items l ! i)))"
  by (cases "rpc ident")
    (auto simp: ListLoadBalancerPrefixes_def wrap_items_Inr_iff translate_items_Inr_iff decode_with_Inr)

lemma ListInterfaces_Inr_iff:
  "ListInterfaces rpc dec z = Inr l \<longleftrightarrow>
   (\<exists>res. rpc () = Inr res \<and> il_TypeMeta l = \<lparr>Kind = InterfaceListKind\<rparr>
      \<and> length (Items l) = length (GetInterfaces res)
      \<and> (\<forall>i < length (GetInterfaces res). dec (GetInterfaces res ! i) = Inr (Items l ! i)))"
  by (cases "rpc ()")
    (auto simp: ListInterfaces_def wrap_items_Inr_iff translate_items_Inr_iff decode_with_Inr)

lemma lbtarget_of_Inr:
  "lbtarget_of f ident x = Inr y \<longleftrightarrow>
   (\<exists>t. f x = Some t \<and> y = \<lparr>lt_TypeMeta = \<lparr>Kind = LoadBalancerTargetKind\<rparr>,
                              lt_LoadBalancerTargetMeta = \<lparr>ltm_ID = ident\<rparr>,
                              lt_Spec = \<lparr>lts_TargetIP = t\<rparr>\<rparr>)"
  by (auto simp: lbtarget_of_def split: option.splits)

lemma GetLoadBalancerTargets_Inr_iff:
  "GetLoadBalancerTargets rpc f z ident = Inr l \<longleftrightarrow>
   (\<exists>res. rpc ident = Inr res \<and> GetError (GetStatus res) = 0
      \<and> il_TypeMeta l = \<lparr>Kind = LoadBalancerTargetListKind\<rparr>
      \<and> length (Items l) = length (GetTargetIPs res)
      \<and> (\<forall>i < length (GetTargetIPs res). \<exists>t. f (GetTargetIPs res ! i) = Some t
            \<and> Items l ! i = \<lparr>lt_TypeMeta = \<lparr>Kind = LoadBalancerTargetKind\<rparr>,
                              lt_LoadBalancerTargetMeta = \<lparr>ltm_ID = ident\<rparr>,
                              lt_Spec = \<lparr>lts_TargetIP = t\<rparr>\<rparr>))"
  by (cases "rpc ident")
    (auto simp: GetLoadBalancerTargets_def wrap_items_Inr_iff translate_items_Inr_iff lbtarget_of_Inr)




subsection \<open>What a list operation returns\<close>

text \<open>
  Claim C9. A list operation returns a list exactly when the remote call succeeded
  (and, for \<^verbatim>\<open>GetLoadBalancerTargets\<close>, the status code is zero), the list has the length
  of the response's sequence, and its element at each index is the translation of the
  response's element at the same index: the order of the service is kept.
\<close>

theorem list_results_keep_response_order:
  "(ListLoadBalancerPrefixes rpc_lbpfxs decPfx lbconv zeroPfx ident = Inr lp \<longleftrightarrow>
      (\<exists>res. rpc_lbpfxs ident = Inr res \<and> il_TypeMeta lp = \<lparr>Kind = PrefixListKind\<rparr>
         \<and> length (Items lp) = length (GetPrefixes res)
         \<and> (\<forall>i < length (GetPrefixes res). decPfx ident (lbconv (GetPrefixes res ! i)) = Inr (Items lp ! i))))
   \<and> (GetLoadBalancerTargets rpc_tgts fromLbip zeroTgt ident = Inr lt \<longleftrightarrow>
      (\<exists>res. rpc_tgts ident = Inr res \<and> GetError (GetStatus res) = 0
         \<and> il_TypeMeta lt = \<lparr>Kind = LoadBalancerTargetListKind\<rparr>
         \<and> length (Items lt) = length (GetTargetIPs res)
         \<and> (\<forall>i < length (GetTargetIPs res). \<exists>t. fromLbip (GetTargetIPs res ! i) = Some t
               \<and> Items lt ! i = \<lparr>lt_TypeMeta = \<lparr>Kind = LoadBalancerTargetKind\<rparr>,
                                  lt_LoadBalancerTargetMeta = \<lparr>ltm_ID = ident\<rparr>,
                                  lt_Spec = \<lparr>lts_TargetIP = t\<rparr>\<rparr>)))
   \<and> (ListInterfaces rpc_lif decIf zeroIf = Inr li \<longleftrightarrow>
      (\<exists>res. rpc_lif () = Inr res \<and> il_TypeMeta li = \<lparr>Kind = InterfaceListKind\<rparr>
         \<and> length (Items li) = length (GetInterfaces res)
         \<and> (\<forall>i < length (GetInterfaces res). decIf (GetInterfaces res ! i) = Inr (Items li ! i))))
   \<and> (ListPrefixes rpc_pfxs decP zeroPfx ident = Inr lq \<longleftrightarrow>
      (\<exists>res. rpc_pfxs ident = Inr res \<and> il_TypeMeta lq = \<lparr>Kind = PrefixListKind\<rparr>
         \<and> length (Items lq) = length (GetPrefixes res)
         \<and> (\<forall>i < length (GetPrefixes res). decP ident (GetPrefixes res ! i) = Inr (Items lq ! i))))
   \<and> (ListRoutes rpc_routes decRoute zeroRoute vni = Inr lr \<longleftrightarrow>
      (\<exists>res. rpc_routes vni = Inr res \<and> il_TypeMeta lr = \<lparr>Kind = RouteListKind\<rparr>
         \<and> length (Items lr) = length (GetRoutes res)
         \<and> (\<forall>i < length (GetRoutes res). decRoute vni (GetRoutes res ! i) = Inr (Items lr ! i))))"
  by (simp only: ListLoadBalancerPrefixes_Inr_iff GetLoadBalancerTargets_Inr_iff ListInterfaces_Inr_iff
      ListPrefixes_Inr_iff ListRoutes_Inr_iff simp_thms)

theorem list_results_keep_response_order_witness:
  "ListRoutes (\<lambda>v. Inr \<lparr>GetStatus = None, GetRoutes = [3, 1, 2]\<rparr>) route_of zero_route 100
     = (Inr \<lparr>il_TypeMeta = \<lparr>Kind = RouteListKind\<rparr>,
             Items = [\<lparr>r_TypeMeta = \<lparr>Kind = RouteKind\<rparr>, r_RouteMeta = RouteMeta_zero, r_Spec = 3\<rparr>,
                      \<lparr>r_TypeMeta = \<lparr>Kind = RouteKind\<rparr>, r_RouteMeta = RouteMeta_zero, r_Spec = 1\<rparr>,
                      \<lparr>r_TypeMeta = \<lparr>Kind = RouteKind\<rparr>, r_RouteMeta = RouteMeta_zero, r_Spec = 2\<rparr>]\<rparr>
          :: (unit, string) client_error + nat Route ItemList)
   \<and> GetLoadBalancerTargets (\<lambda>i. Inr \<lparr>GetStatus = Some ok_status, GetTargetIPs = [Addr4 10 0 0 9, Addr4 10 0 0 1]\<rparr>)
        (\<lambda>a. Some \<lparr>tip_Address = a\<rparr>) sample_target ''4''
     = (Inr \<lparr>il_TypeMeta = \<lparr>Kind = LoadBalancerTargetListKind\<rparr>,
             Items = [\<lparr>lt_TypeMeta = \<lparr>Kind = LoadBalancerTargetKind\<rparr>,
                       lt_LoadBalancerTargetMeta = \<lparr>ltm_ID = ''4''\<rparr>,
                       lt_Spec = \<lparr>lts_TargetIP = \<lparr>tip_Address = Addr4 10 0 0 9\<rparr>\<rparr>\<rparr>,
                      \<lparr>lt_TypeMeta = \<lparr>Kind = LoadBalancerTargetKind\<rparr>,
                       lt_LoadBalancerTargetMeta = \<lparr>ltm_ID = ''4''\<rparr>,
                       lt_Spec = \<lparr>lts_TargetIP = \<lparr>tip_Address = Addr4 10 0 0 1\<rparr>\<rparr>\<rparr>]\<rparr>
          :: (unit, string) client_error + TargetIP LoadBalancerTarget ItemList)"
  using list_results_keep_response_order [where ?'b = unit and ?'c = string
      and rpc_routes = "\<lambda>v. Inr \<lparr>GetStatus = None, GetRoutes = [3, 1, 2]\<rparr>" and decRoute = route_of
      and zeroRoute = zero_route and vni = 100
      and lr = "\<lparr>il_TypeMeta = \<lparr>Kind = RouteListKind\<rparr>,
             Items = [\<lparr>r_TypeMeta = \<lparr>Kind = RouteKind\<rparr>, r_RouteMeta = RouteMeta_zero, r_Spec = 3\<rparr>,
                      \<lparr>r_TypeMeta = \<lparr>Kind = RouteKind\<rparr>, r_RouteMeta = RouteMeta_zero, r_Spec = 1\<rparr>,
                      \<lparr>r_TypeMeta = \<lparr>Kind = RouteKind\<rparr>, r_RouteMeta = RouteMeta_zero, r_Spec = 2\<rparr>]\<rparr>"
      and rpc_tgts = "\<lambda>i. Inr \<lparr>GetStatus = Some ok_status, GetTargetIPs = [Addr4 10 0 0 9, Addr4 10 0 0 1]\<rparr>"
      and fromLbip = "\<lambda>a. Some \<lparr>tip_Address = a\<rparr>" and zeroTgt = sample_target and ident = "''4''"]
  by (simp add: ListRoutes_def GetLoadBalancerTargets_def translate_items_def decode_with_def route_of_def
      lbtarget_of_def ok_status_def GetError_def)



subsection \<open>The version tag of an address\<close>

lemma ParsePrefix_ff80_1_64: "ParsePrefix ''ff80::1/64'' = Inr (Prefix (Addr6 0xff80 0 0 0 0 0 0 1 []) 64)"
  by (simp add: ParsePrefix_def ParseAddr_def parseIPv6_def hex_val_def byte_def Let_def parseIPv6_loop_numeral
      is_digit_def digit_val_def PrefixFrom_def replicate_numeral)

lemma ParseAddr_ff80_1: "ParseAddr ''ff80::1'' = Inr (Addr6 0xff80 0 0 0 0 0 0 1 [])"
  by (simp add: ParseAddr_def parseIPv6_def parseIPv6_loop_numeral hex_val_def byte_def Let_def
      replicate_numeral)

text \<open>
  Claim C6, at a concrete input: \<^verbatim>\<open>prefix add --interface_id iface-1 --ipv4 ff80::1/64\<close>.
  The remote call below answers with success on one request only, so the first result
  says which request the command sends: the address ff80::1, which is an IPv6 address,
  under the tag IPv4. The tag follows the flag that held the text, not the family of
  the address. \<^verbatim>\<open>CreatePrefix\<close> of the wire client sends the same prefix under the tag
  IPv6.
\<close>

theorem addPrefixCmd_tags_by_flag_not_by_address:
  "addPrefixCmd
     (\<lambda>reg. if reg = \<lparr>ipm_InterfaceID = ''iface-1'',
                       ipm_Prefix = \<lparr>pfx_IpVersion = IPVersion_IPv4, pfx_Address = ''ff80::1'',
                                     pfx_PrefixLength = 64\<rparr>\<rparr>
            then Inr () else Inl ''another request'')
     ''iface-1'' ''ff80::1/64'' [] = Printed ()
   \<and> ParseAddr ''ff80::1'' = Inr (Addr6 0xff80 0 0 0 0 0 0 1 [])
   \<and> Is6 (Addr6 0xff80 0 0 0 0 0 0 1 [])
   \<and> CreatePrefix
     (\<lambda>req. if req = \<lparr>ipm_InterfaceID = ''iface-1'',
                       ipm_Prefix = \<lparr>pfx_IpVersion = IPVersion_IPv6, pfx_Address = ''ff80::1'',
                                     pfx_PrefixLength = 64\<rparr>\<rparr>
            then Inr \<lparr>GetStatus = Some ok_status\<rparr> else Inl ())
     \<lparr>p_TypeMeta = \<lparr>Kind = []\<rparr>,
      p_PrefixMeta = \<lparr>pm_InterfaceID = ''iface-1'', pm_Prefix = Prefix (Addr6 0xff80 0 0 0 0 0 0 1 []) 64\<rparr>,
      p_Spec = ()\<rparr>
     = (Inr \<lparr>p_TypeMeta = \<lparr>Kind = PrefixKind\<rparr>,
             p_PrefixMeta = \<lparr>pm_InterfaceID = ''iface-1'', pm_Prefix = Prefix (Addr6 0xff80 0 0 0 0 0 0 1 []) 64\<rparr>,
             p_Spec = ()\<rparr> :: (unit, unit) client_error + unit ApiPrefix)"
  by (simp add: addPrefixCmd_def ParsePrefix_ff80_1_64 ParseAddr_ff80_1 string6_ff80_1 CreatePrefix_def
      CreatePrefix_request_def interface_prefix_msg_def prefix_to_proto_def NetIPAddrToProtoIPVersion_def
      ok_status_def GetError_def)

subsection \<open>Parsing the text of an address gives the address back\<close>

lemma lt16_cases:
  "d < 16 \<Longrightarrow> d = 0 \<or> d = 1 \<or> d = 2 \<or> d = 3 \<or> d = 4 \<or> d = 5 \<or> d = 6 \<or> d = 7 \<or> d = 8 \<or> d = 9
     \<or> d = 10 \<or> d = 11 \<or> d = 12 \<or> d = 13 \<or> d = 14 \<or> d = (15::nat)"
  by arith

lemma hex_val_digits: "d < 16 \<Longrightarrow> hex_val (digits ! d) = Some d"
  by (drule lt16_cases) (auto simp: digits_def hex_val_def byte_def)

lemma is_digit_digits: "d < 10 \<Longrightarrow> is_digit (digits ! d)"
  using lt16_cases [of d] by (auto simp: digits_def is_digit_def byte_def)

lemma digit_val_digits: "d < 10 \<Longrightarrow> digit_val (digits ! d) = d"
  using lt16_cases [of d] by (auto simp: digits_def digit_val_def byte_def)

lemma digits_not_special:
  "d < 16 \<Longrightarrow> digits ! d \<noteq> CHR ''.'' \<and> digits ! d \<noteq> CHR '':'' \<and> digits ! d \<noteq> CHR ''%''"
  by (drule lt16_cases) (auto simp: digits_def)

lemma hex_val_colon: "hex_val CHR '':'' = None"
  by (simp add: hex_val_def byte_def)

lemma parseIPv4_loop_digit1:
  "d0 < 10 \<Longrightarrow> parseIPv4_loop (digits ! d0 # rest) prev 0 0 fs
     = parseIPv4_loop rest (Some (digits ! d0)) d0 (Suc 0) fs"
  by (simp add: is_digit_digits digit_val_digits)

lemma parseIPv4_loop_digit2:
  "0 < d1 \<Longrightarrow> d1 < 10 \<Longrightarrow> d0 < 10 \<Longrightarrow>
   parseIPv4_loop (digits ! d1 # digits ! d0 # rest) prev 0 0 fs
     = parseIPv4_loop rest (Some (digits ! d0)) (d1 * 10 + d0) (Suc (Suc 0)) fs"
  by (simp add: is_digit_digits digit_val_digits)

lemma parseIPv4_loop_digit3:
  "0 < d2 \<Longrightarrow> d2 < 10 \<Longrightarrow> d1 < 10 \<Longrightarrow> d0 < 10 \<Longrightarrow> (d2 * 10 + d1) * 10 + d0 \<le> 255 \<Longrightarrow>
   parseIPv4_loop (digits ! d2 # digits ! d1 # digits ! d0 # rest) prev 0 0 fs
     = parseIPv4_loop rest (Some (digits ! d0)) ((d2 * 10 + d1) * 10 + d0) (Suc (Suc (Suc 0))) fs"
  by (simp add: is_digit_digits digit_val_digits)

lemma parseIPv4_loop_octet:
  assumes "n < 256"
  shows "parseIPv4_loop (appendDecimal n @ rest) prev 0 0 fs
         = parseIPv4_loop rest (Some (last (appendDecimal n))) n (length (appendDecimal n)) fs"
proof -
  define d0 where "d0 = n mod 10"
  define d1 where "d1 = n div 10 mod 10"
  define d2 where "d2 = n div 100"
  have b: "d0 < 10" "d1 < 10" "d2 < 10"
    using assms by (simp_all add: d0_def d1_def d2_def)
  consider "n < 10" | "10 \<le> n" "n < 100" | "100 \<le> n" by linarith
  then show ?thesis
  proof cases
    case 1
    then have n: "n = d0" by (simp add: d0_def)
    have a: "appendDecimal n = [digits ! d0]"
      using 1 by (simp add: appendDecimal_def digit_char_def d0_def)
    show ?thesis
      unfolding a using parseIPv4_loop_digit1 [OF b(1), of rest prev fs] n by (simp del: parseIPv4_loop.simps)
  next
    case 2
    then have n: "n = d1 * 10 + d0" and nz: "0 < d1"
      by (simp_all add: d0_def d1_def)
    have a: "appendDecimal n = [digits ! d1, digits ! d0]"
      using 2 by (simp add: appendDecimal_def digit_char_def d0_def d1_def)
    show ?thesis
      unfolding a using parseIPv4_loop_digit2 [OF nz b(2) b(1), of rest prev fs] n by (simp del: parseIPv4_loop.simps)
  next
    case 3
    have "n div 100 = n div 10 div 10"
      by (simp add: div_mult2_eq [symmetric])
    then have n: "n = (d2 * 10 + d1) * 10 + d0"
      unfolding d0_def d1_def d2_def by simp
    have nz: "0 < d2" using 3 by (simp add: d2_def)
    have le: "(d2 * 10 + d1) * 10 + d0 \<le> 255" using n assms by simp
    have a: "appendDecimal n = [digits ! d2, digits ! d1, digits ! d0]"
      using 3 by (simp add: appendDecimal_def digit_char_def d0_def d1_def d2_def)
    show ?thesis
      unfolding a using parseIPv4_loop_digit3 [OF nz b(3) b(2) b(1) le, of rest prev fs] n by (simp del: parseIPv4_loop.simps)
  qed
qed

lemmas parseIPv4_loop_octet_end = parseIPv4_loop_octet [where rest = "[]", simplified]

lemma appendDecimal_nonempty: "appendDecimal n \<noteq> []"
  by (simp add: appendDecimal_def)

lemma appendDecimal_last_not_dot: "last (appendDecimal n) \<noteq> CHR ''.''"
  by (simp add: appendDecimal_def digit_char_def digits_not_special)

lemma parseIPv4_loop_dot:
  "c \<noteq> CHR ''.'' \<Longrightarrow> rest \<noteq> [] \<Longrightarrow> length fs < 3 \<Longrightarrow>
   parseIPv4_loop (CHR ''.'' # rest) (Some c) n k fs = parseIPv4_loop rest (Some CHR ''.'') 0 0 (fs @ [of_nat n])"
  by (simp add: is_digit_def byte_def)

lemma parseIPv4_string4: "parseIPv4 (string4 a b c d) = Inr (Addr4 a b c d)"
proof -
  have u: "unat a < 256" "unat b < 256" "unat c < 256" "unat d < 256"
    using unsigned_less [of a, where ?'a = nat] unsigned_less [of b, where ?'a = nat]
      unsigned_less [of c, where ?'a = nat] unsigned_less [of d, where ?'a = nat] by simp_all
  show ?thesis
    unfolding parseIPv4_def string4_def
    by (simp del: parseIPv4_loop.simps(2) add: parseIPv4_loop_octet parseIPv4_loop_octet_end u
        parseIPv4_loop_dot appendDecimal_last_not_dot appendDecimal_nonempty)
qed

lemma ParseAddr_scan_digits:
  "\<forall>c \<in> set ds. c \<noteq> CHR ''.'' \<and> c \<noteq> CHR '':'' \<and> c \<noteq> CHR ''%'' \<Longrightarrow>
   ParseAddr_scan s (ds @ rest) = ParseAddr_scan s rest"
  by (induction ds) auto

lemma appendDecimal_chars:
  "n < 256 \<Longrightarrow> \<forall>c \<in> set (appendDecimal n). c \<noteq> CHR ''.'' \<and> c \<noteq> CHR '':'' \<and> c \<noteq> CHR ''%''"
  by (simp add: appendDecimal_def digit_char_def digits_not_special)

lemma ParseAddr_string4: "ParseAddr (string4 a b c d) = Inr (Addr4 a b c d)"
proof -
  have u: "unat a < 256"
    using unsigned_less [of a, where ?'a = nat] by simp
  have "ParseAddr (string4 a b c d) = parseIPv4 (string4 a b c d)"
    unfolding ParseAddr_def
    by (subst (2) string4_def) (simp add: ParseAddr_scan_digits [OF appendDecimal_chars [OF u]])
  then show ?thesis by (simp add: parseIPv4_string4)
qed

end
